theory Spec2Isabelle
  imports Main "HOL-Library.Word" "HOL-Library.Monad_Syntax"
begin

unbundle bit_operations_syntax

section \<open>The target machine\<close>

text \<open>
  The code generator of \<^verbatim>\<open>src/compiler/s390/code-generator-s390.cc\<close> writes
  macro-assembler calls (\<^verbatim>\<open>__ AndP(...)\<close>, \<^verbatim>\<open>__ bge(...)\<close>) into an instruction
  stream. The embedding has two layers: the functions of the code generator, translated
  from the source, return the list of macro-assembler calls they make; and a machine
  that runs such a list. The macro assembler (\<^verbatim>\<open>src/s390/macro-assembler-s390.h\<close>)
  is not among the source files, so the meaning of each call is a model of its own,
  marked as such where it is defined.
\<close>

datatype Register = Register (reg_code: nat)
datatype DoubleRegister = DoubleRegister (dreg_code: nat)

definition r0 :: Register where "r0 = Register 0"
definition r1 :: Register where "r1 = Register 1"
definition r2 :: Register where "r2 = Register 2"
definition r3 :: Register where "r3 = Register 3"
definition r4 :: Register where "r4 = Register 4"
definition r5 :: Register where "r5 = Register 5"
definition r6 :: Register where "r6 = Register 6"
definition fp :: Register where "fp = Register 11"
definition ip :: Register where "ip = Register 12"
definition r13 :: Register where "r13 = Register 13"
definition r14 :: Register where "r14 = Register 14"
definition sp :: Register where "sp = Register 15"

text \<open>\<^verbatim>\<open>#define kScratchReg ip\<close>\<close>

definition kScratchReg :: Register where "kScratchReg = ip"

text \<open>Modelled from the spec: \<^verbatim>\<open>kScratchDoubleReg\<close>, the reserved floating-point
  scratch register, is declared by the macro assembler; it is d14 there.\<close>

definition kScratchDoubleReg :: DoubleRegister where "kScratchDoubleReg = DoubleRegister 14"

text \<open>The condition code of the machine has four values. A branch condition is a mask
  of four bits, one for each value (\<^verbatim>\<open>eq = 0x8\<close>, \<^verbatim>\<open>ne = 0x7\<close>, ...).\<close>

datatype CC = CC0 | CC1 | CC2 | CC3

datatype Condition = eq | ne | ge | lt | gt | le | unordered | al

text \<open>Modelled from the spec: the enumeration \<^verbatim>\<open>Condition\<close> and \<^verbatim>\<open>NegateCondition\<close>
  are declared in \<^verbatim>\<open>src/s390/constants-s390.h\<close>. Value 0 of the condition code is
  "equal", 1 is "first operand low", 2 is "first operand high" and 3 is "unordered"
  (after a floating-point compare) or "overflow".\<close>

fun Condition_mask :: "Condition \<Rightarrow> nat" where
  "Condition_mask eq = 8"
| "Condition_mask ne = 7"
| "Condition_mask ge = 10"
| "Condition_mask lt = 4"
| "Condition_mask gt = 2"
| "Condition_mask le = 12"
| "Condition_mask unordered = 1"
| "Condition_mask al = 15"

fun CC_bit :: "CC \<Rightarrow> nat" where
  "CC_bit CC0 = 8"
| "CC_bit CC1 = 4"
| "CC_bit CC2 = 2"
| "CC_bit CC3 = 1"

definition branch_taken :: "Condition \<Rightarrow> CC \<Rightarrow> bool" where
  "branch_taken c k = (Condition_mask c AND CC_bit k \<noteq> 0)"

fun NegateCondition :: "Condition \<Rightarrow> Condition option" where
  "NegateCondition eq = Some ne"
| "NegateCondition ne = Some eq"
| "NegateCondition ge = Some lt"
| "NegateCondition gt = Some le"
| "NegateCondition le = Some gt"
| "NegateCondition lt = Some ge"
| "NegateCondition _ = None"

record machine =
  gpr :: "Register \<Rightarrow> 64 word"
  fpr :: "DoubleRegister \<Rightarrow> 64 word"
  mem :: "64 word \<Rightarrow> 8 word"
  cc :: "CC option"

text \<open>The general registers are the 64-bit registers of the hardware in both build
  configurations. Without \<^verbatim>\<open>V8_TARGET_ARCH_S390X\<close> a pointer-width instruction works on
  the low 32 bits of a register and leaves the high 32 bits as they are. The condition code
  is \<open>None\<close> after an instruction whose effect on it the model leaves open; a branch on it
  is then undefined.\<close>

definition lo32 :: "64 word \<Rightarrow> 32 word" where
  "lo32 v = ucast v"

definition sext32 :: "32 word \<Rightarrow> 64 word" where
  "sext32 v = scast v"

definition zext32 :: "32 word \<Rightarrow> 64 word" where
  "zext32 v = ucast v"

definition set_lo32 :: "64 word \<Rightarrow> 32 word \<Rightarrow> 64 word" where
  "set_lo32 old v = (old AND 0xFFFFFFFF00000000) OR zext32 v"

definition readP :: "bool \<Rightarrow> 64 word \<Rightarrow> 64 word" where
  "readP x v = (if x then v else sext32 (lo32 v))"

definition readPu :: "bool \<Rightarrow> 64 word \<Rightarrow> 64 word" where
  "readPu x v = (if x then v else zext32 (lo32 v))"

definition writeP :: "bool \<Rightarrow> 64 word \<Rightarrow> 64 word \<Rightarrow> 64 word" where
  "writeP x old v = (if x then v else set_lo32 old (lo32 v))"

definition compare_signed :: "int \<Rightarrow> int \<Rightarrow> CC" where
  "compare_signed a c = (if a = c then CC0 else if a < c then CC1 else CC2)"

definition compare_unsigned :: "nat \<Rightarrow> nat \<Rightarrow> CC" where
  "compare_unsigned a c = (if a = c then CC0 else if a < c then CC1 else CC2)"

subsection \<open>Floating point\<close>

text \<open>A floating-point register holds the 64 bits of a double. Arithmetic on doubles
  is a parameter of the machine (\<open>fadd\<close>, ... below); what is a NaN and how two doubles
  compare is read off the bits.\<close>

definition is_nan64 :: "64 word \<Rightarrow> bool" where
  "is_nan64 v = (v AND 0x7FF0000000000000 = 0x7FF0000000000000 \<and> v AND 0x000FFFFFFFFFFFFF \<noteq> 0)"


definition double_key :: "64 word \<Rightarrow> int" where
  "double_key v = (if bit v 63 then - uint (v AND 0x7FFFFFFFFFFFFFFF) else uint (v AND 0x7FFFFFFFFFFFFFFF))"

definition compare_double :: "64 word \<Rightarrow> 64 word \<Rightarrow> CC" where
  "compare_double a c = (if is_nan64 a \<or> is_nan64 c then CC3 else compare_signed (double_key a) (double_key c))"

subsection \<open>Labels and memory operands\<close>

datatype Label =
    BlockLabel nat
  | OolEntry nat
  | OolExit nat
  | LocalLabel string
  | JumpTableLabel nat
  | ReturnLabel

text \<open>Modelled from the spec: \<^verbatim>\<open>MemOperand\<close> is declared in
  \<^verbatim>\<open>src/s390/assembler-s390.h\<close>. \<^verbatim>\<open>MemOperand(rn, offset)\<close> has base register
  \<^verbatim>\<open>rn\<close> and no index register (r0 stands for none); \<^verbatim>\<open>MemOperand(rx, rb)\<close> has index
  register \<^verbatim>\<open>rx\<close> and base register \<^verbatim>\<open>rb\<close>.\<close>

record MemOperand =
  rb :: Register
  rx :: Register
  offset :: "32 word"

definition MemOperand_RI :: "Register \<Rightarrow> 32 word \<Rightarrow> MemOperand" where
  "MemOperand_RI rn off = \<lparr>rb = rn, rx = r0, offset = off\<rparr>"

definition MemOperand_RR :: "Register \<Rightarrow> Register \<Rightarrow> MemOperand" where
  "MemOperand_RR x_reg b_reg = \<lparr>rb = b_reg, rx = x_reg, offset = 0\<rparr>"

subsection \<open>The calls of the macro assembler\<close>

datatype Opnd = Reg Register | Imm "64 word"

datatype BinOp = AndP | OrP | XorP | AddP | SubP
datatype ShiftOp = ShiftLeft | ShiftRight | ShiftRightArith
datatype FloatBinOp = adbr | sdbr | mdbr | ddbr
datatype CmpOp = Cmp32 | CmpLogical32 | CmpP | CmpLogicalP
datatype LoadOp = LoadlB | LoadHalfWordP | LoadLogicalHalfWordP | LoadW | LoadP | lg
datatype StoreOp = StoreByte | StoreHalfWord | StoreW | StoreP

datatype masm =
    LoadRR Register Register
  | NotP Register
  | BinP BinOp Register Register Opnd
  | Shift32 ShiftOp Register Register Opnd
  | ShiftLeftP Register Register Opnd
  | lgfr Register Register
  | lgbr Register Register
  | lbr Register Register
  | LoadImmP Register "64 word"
  | Cmp CmpOp Register Opnd
  | ldr DoubleRegister DoubleRegister
  | FloatBin FloatBinOp DoubleRegister DoubleRegister
  | cdbr DoubleRegister DoubleRegister
  | b_cond Condition Label
  | bind_label Label
  | Load LoadOp Register MemOperand
  | Store StoreOp Register MemOperand
  | LoadF DoubleRegister MemOperand
  | LoadShortConvertToDoubleF DoubleRegister MemOperand
  | StoreF DoubleRegister MemOperand
  | StoreDoubleAsFloat32 DoubleRegister MemOperand DoubleRegister
  | LoadDoubleLiteral DoubleRegister "64 word" Register
  | AddAndCheckForOverflow Register Register Opnd Register Register
  | SubAndCheckForOverflow Register Register Register Register Register
  | TestIfInt32 Register Register
  | larl Register Label
  | Jump Register
  | lay Register MemOperand
  | Ret
  | Abort
  | emit_label_addr Label
  | nop

abbreviation bunordered :: "Label \<Rightarrow> masm" where "bunordered l \<equiv> b_cond unordered l"
abbreviation bge :: "Label \<Rightarrow> masm" where "bge l \<equiv> b_cond ge l"
abbreviation beq :: "Label \<Rightarrow> masm" where "beq l \<equiv> b_cond eq l"

text \<open>What the model takes as given about the target: the build configuration
  (\<^verbatim>\<open>V8_TARGET_ARCH_S390X\<close>), the CPU feature \<^verbatim>\<open>DISTINCT_OPS\<close>, the arithmetic of
  doubles, the conversions between float and double, the address at which each label
  is bound, and the marker word that a stub frame holds (\<^verbatim>\<open>Smi::FromInt(StackFrame::STUB)\<close>).\<close>

record target =
  S390X :: bool
  DISTINCT_OPS :: bool
  fadd :: "64 word \<Rightarrow> 64 word \<Rightarrow> 64 word"
  fsub :: "64 word \<Rightarrow> 64 word \<Rightarrow> 64 word"
  fmul :: "64 word \<Rightarrow> 64 word \<Rightarrow> 64 word"
  fdiv :: "64 word \<Rightarrow> 64 word \<Rightarrow> 64 word"
  float_to_double :: "32 word \<Rightarrow> 64 word"
  double_to_float :: "64 word \<Rightarrow> 32 word"
  label_address :: "Label \<Rightarrow> 64 word"
  stub_marker :: "64 word"

subsection \<open>Memory\<close>

text \<open>Memory is an array of bytes; a value of several bytes is stored with its most
  significant byte first.\<close>

definition load_bytes :: "(64 word \<Rightarrow> 8 word) \<Rightarrow> 64 word \<Rightarrow> nat \<Rightarrow> 8 word list" where
  "load_bytes m a n = map (\<lambda>i. m (a + of_nat i)) [0..<n]"

definition store_bytes :: "(64 word \<Rightarrow> 8 word) \<Rightarrow> 64 word \<Rightarrow> 8 word list \<Rightarrow> 64 word \<Rightarrow> 8 word" where
  "store_bytes m a bs = (\<lambda>p. if unat (p - a) < length bs then bs ! unat (p - a) else m p)"

definition be_bytes :: "nat \<Rightarrow> 64 word \<Rightarrow> 8 word list" where
  "be_bytes n v = map (\<lambda>i. ucast (drop_bit (8 * (n - 1 - i)) v)) [0..<n]"

definition be_word :: "8 word list \<Rightarrow> 64 word" where
  "be_word bs = foldl (\<lambda>acc byte. push_bit 8 acc OR ucast byte) 0 bs"

definition kPointerSize :: "target \<Rightarrow> nat" where
  "kPointerSize t = (if S390X t then 8 else 4)"

definition kPointerSizeLog2 :: "target \<Rightarrow> nat" where
  "kPointerSizeLog2 t = (if S390X t then 3 else 2)"

definition effective_address :: "target \<Rightarrow> 64 word \<Rightarrow> 64 word" where
  "effective_address t a = (if S390X t then a else a AND 0x7FFFFFFF)"

definition mem_address :: "target \<Rightarrow> machine \<Rightarrow> MemOperand \<Rightarrow> 64 word" where
  "mem_address t s m = effective_address t
     ((if rb m = r0 then 0 else gpr s (rb m)) + (if rx m = r0 then 0 else gpr s (rx m))
        + sext32 (offset m))"

subsection \<open>The meaning of a macro-assembler call\<close>

text \<open>Modelled from the spec: the macro assembler is not among the source files. Each
  call is given the meaning of the z/Architecture instructions it stands for. A call
  named \<^verbatim>\<open>...P\<close> is pointer-wide: 64 bits with \<^verbatim>\<open>V8_TARGET_ARCH_S390X\<close>, else 32.\<close>

definition opnd_value :: "machine \<Rightarrow> Opnd \<Rightarrow> 64 word" where
  "opnd_value s opnd = (case opnd of Reg r \<Rightarrow> gpr s r | Imm v \<Rightarrow> v)"

definition set_gpr :: "Register \<Rightarrow> 64 word \<Rightarrow> machine \<Rightarrow> machine" where
  "set_gpr r v s = s\<lparr>gpr := (gpr s)(r := v)\<rparr>"

definition set_gprP :: "target \<Rightarrow> Register \<Rightarrow> 64 word \<Rightarrow> machine \<Rightarrow> machine" where
  "set_gprP t r v s = set_gpr r (writeP (S390X t) (gpr s r) v) s"

definition set_fpr :: "DoubleRegister \<Rightarrow> 64 word \<Rightarrow> machine \<Rightarrow> machine" where
  "set_fpr d v s = s\<lparr>fpr := (fpr s)(d := v)\<rparr>"

fun binop :: "BinOp \<Rightarrow> 64 word \<Rightarrow> 64 word \<Rightarrow> 64 word" where
  "binop AndP a c = a AND c"
| "binop OrP a c = a OR c"
| "binop XorP a c = a XOR c"
| "binop AddP a c = a + c"
| "binop SubP a c = a - c"

fun float_binop :: "target \<Rightarrow> FloatBinOp \<Rightarrow> 64 word \<Rightarrow> 64 word \<Rightarrow> 64 word" where
  "float_binop t adbr = fadd t"
| "float_binop t sdbr = fsub t"
| "float_binop t mdbr = fmul t"
| "float_binop t ddbr = fdiv t"

text \<open>Modelled from the spec: "Shift/rotate counts must be taken modulo the
  architecture's register width". The shift instructions of the machine use the
  rightmost six bits of the count, whatever the width of the shifted operand; a 32-bit
  shift by 32 or more leaves only zeros or sign bits.\<close>

definition kRegisterWidth :: nat where
  "kRegisterWidth = 64"

definition shift_count :: "64 word \<Rightarrow> nat" where
  "shift_count v = unat v mod kRegisterWidth"

fun shift32 :: "ShiftOp \<Rightarrow> 32 word \<Rightarrow> nat \<Rightarrow> 32 word" where
  "shift32 ShiftLeft v n = push_bit n v"
| "shift32 ShiftRight v n = drop_bit n v"
| "shift32 ShiftRightArith v n = signed_drop_bit n v"

definition test_sign :: "bool \<Rightarrow> 64 word \<Rightarrow> CC" where
  "test_sign x v = compare_signed (sint (readP x v)) 0"

fun compare :: "bool \<Rightarrow> CmpOp \<Rightarrow> 64 word \<Rightarrow> 64 word \<Rightarrow> CC" where
  "compare x Cmp32 a c = compare_signed (sint (lo32 a)) (sint (lo32 c))"
| "compare x CmpLogical32 a c = compare_unsigned (unat (lo32 a)) (unat (lo32 c))"
| "compare x CmpP a c = compare_signed (sint (readP x a)) (sint (readP x c))"
| "compare x CmpLogicalP a c = compare_unsigned (unat (readPu x a)) (unat (readPu x c))"

fun load_value :: "target \<Rightarrow> LoadOp \<Rightarrow> (64 word \<Rightarrow> 8 word) \<Rightarrow> 64 word \<Rightarrow> 64 word" where
  "load_value t LoadlB m a = be_word (load_bytes m a 1)"
| "load_value t LoadHalfWordP m a = scast (ucast (be_word (load_bytes m a 2)) :: 16 word)"
| "load_value t LoadLogicalHalfWordP m a = be_word (load_bytes m a 2)"
| "load_value t LoadW m a = sext32 (lo32 (be_word (load_bytes m a 4)))"
| "load_value t LoadP m a = be_word (load_bytes m a (kPointerSize t))"
| "load_value t lg m a = be_word (load_bytes m a 8)"

fun store_size :: "target \<Rightarrow> StoreOp \<Rightarrow> nat" where
  "store_size t StoreByte = 1"
| "store_size t StoreHalfWord = 2"
| "store_size t StoreW = 4"
| "store_size t StoreP = kPointerSize t"

text \<open>The three-register shift macros are not atomic: without \<^verbatim>\<open>DISTINCT_OPS\<close>, and
  when destination and source differ, \<^verbatim>\<open>ShiftLeft(dst, src, val)\<close> is \<^verbatim>\<open>lr(dst, src)\<close>
  followed by \<^verbatim>\<open>sll(dst, val)\<close>, so a count held in \<^verbatim>\<open>dst\<close> is overwritten before it is
  read.\<close>

definition exec_shift32 :: "target \<Rightarrow> ShiftOp \<Rightarrow> Register \<Rightarrow> Register \<Rightarrow> Opnd \<Rightarrow> machine \<Rightarrow> machine" where
  "exec_shift32 t opr dst src val s =
     (let s1 = (if dst = src \<or> DISTINCT_OPS t then s
                else set_gpr dst (set_lo32 (gpr s dst) (lo32 (gpr s src))) s);
          v = (if dst = src \<or> DISTINCT_OPS t then gpr s src else gpr s1 dst);
          n = shift_count (opnd_value s1 val)
      in (set_gpr dst (set_lo32 (gpr s1 dst) (shift32 opr (lo32 v) n)) s1)\<lparr>cc := None\<rparr>)"

fun exec :: "target \<Rightarrow> masm \<Rightarrow> machine \<Rightarrow> machine" where
  "exec t (LoadRR dst src) s = set_gprP t dst (gpr s src) s"
| "exec t (NotP dst) s = (set_gprP t dst (NOT (gpr s dst)) s)\<lparr>cc := None\<rparr>"
| "exec t (BinP opr dst src1 src2) s =
     (set_gprP t dst (binop opr (gpr s src1) (opnd_value s src2)) s)\<lparr>cc := None\<rparr>"
| "exec t (Shift32 opr dst src val) s = exec_shift32 t opr dst src val s"
| "exec t (ShiftLeftP dst src val) s =
     set_gprP t dst (push_bit (shift_count (opnd_value s val)) (readPu (S390X t) (gpr s src))) s"
| "exec t (lgfr dst src) s = set_gpr dst (sext32 (lo32 (gpr s src))) s"
| "exec t (lgbr dst src) s = set_gpr dst (scast (ucast (gpr s src) :: 8 word)) s"
| "exec t (lbr dst src) s = set_gpr dst (set_lo32 (gpr s dst) (scast (ucast (gpr s src) :: 8 word))) s"
| "exec t (LoadImmP dst v) s = set_gprP t dst v s"
| "exec t (Cmp opr src1 src2) s = s\<lparr>cc := Some (compare (S390X t) opr (gpr s src1) (opnd_value s src2))\<rparr>"
| "exec t (ldr dst src) s = set_fpr dst (fpr s src) s"
| "exec t (FloatBin opr dst src) s =
     (set_fpr dst (float_binop t opr (fpr s dst) (fpr s src)) s)\<lparr>cc := None\<rparr>"
| "exec t (cdbr src1 src2) s = s\<lparr>cc := Some (compare_double (fpr s src1) (fpr s src2))\<rparr>"
| "exec t (b_cond c l) s = s"
| "exec t (bind_label l) s = s"
| "exec t (Load opr dst opnd) s =
     set_gpr dst (if opr = lg then load_value t opr (mem s) (mem_address t s opnd)
                  else writeP (S390X t) (gpr s dst) (load_value t opr (mem s) (mem_address t s opnd))) s"
| "exec t (Store opr src opnd) s =
     s\<lparr>mem := store_bytes (mem s) (mem_address t s opnd) (be_bytes (store_size t opr) (gpr s src))\<rparr>"
| "exec t (LoadF dst opnd) s = set_fpr dst (be_word (load_bytes (mem s) (mem_address t s opnd) 8)) s"
| "exec t (LoadShortConvertToDoubleF dst opnd) s =
     set_fpr dst (float_to_double t (lo32 (be_word (load_bytes (mem s) (mem_address t s opnd) 4)))) s"
| "exec t (StoreF src opnd) s =
     s\<lparr>mem := store_bytes (mem s) (mem_address t s opnd) (be_bytes 8 (fpr s src))\<rparr>"
| "exec t (StoreDoubleAsFloat32 src opnd scratch) s =
     (set_fpr scratch (push_bit 32 (zext32 (double_to_float t (fpr s src))) OR (fpr s scratch AND 0xFFFFFFFF)) s)
       \<lparr>mem := store_bytes (mem s) (mem_address t s opnd) (be_bytes 4 (zext32 (double_to_float t (fpr s src))))\<rparr>"
| "exec t (LoadDoubleLiteral dst v scratch) s = set_fpr dst v (set_gpr scratch v s)"
| "exec t (AddAndCheckForOverflow dst left right overflow_dst scratch) s =
     (let a = gpr s left; c = opnd_value s right; sum = a + c;
          ovf = writeP (S390X t) (gpr s overflow_dst) ((sum XOR a) AND (sum XOR c))
      in (set_gprP t dst sum (set_gpr overflow_dst ovf (set_gprP t scratch (sum XOR c) s)))
           \<lparr>cc := Some (test_sign (S390X t) ovf)\<rparr>)"
| "exec t (SubAndCheckForOverflow dst left right overflow_dst scratch) s =
     (let a = gpr s left; c = gpr s right; diff = a - c;
          ovf = writeP (S390X t) (gpr s overflow_dst) ((a XOR c) AND (a XOR diff))
      in (set_gprP t dst diff (set_gpr overflow_dst ovf (set_gprP t scratch (a XOR c) s)))
           \<lparr>cc := Some (test_sign (S390X t) ovf)\<rparr>)"
| "exec t (TestIfInt32 v scratch) s =
     (set_gpr scratch (sext32 (lo32 (gpr s v))) s)
       \<lparr>cc := Some (compare_signed (sint (sext32 (lo32 (gpr s v)))) (sint (gpr (set_gpr scratch (sext32 (lo32 (gpr s v))) s) v)))\<rparr>"
| "exec t (larl dst l) s = set_gprP t dst (label_address t l) s"
| "exec t (Jump target_reg) s = s"
| "exec t (lay dst opnd) s = set_gprP t dst (mem_address t s opnd) s"
| "exec t Ret s = s"
| "exec t Abort s = s"
| "exec t (emit_label_addr l) s = s"
| "exec t nop s = s"

subsection \<open>Running a sequence of calls\<close>

text \<open>A sequence runs from its first call. A branch that is taken skips forward to
  where its label is bound in the sequence; when the label is not bound there, control
  leaves the sequence for that label. \<^verbatim>\<open>Ret\<close> returns to the caller and \<^verbatim>\<open>Abort\<close>
  stops the machine. \<open>Undefined\<close> is a conditional branch on a condition code that the
  model leaves open; the unconditional branch (\<^verbatim>\<open>al\<close>) does not read the condition code.\<close>

datatype outcome =
    Fallthrough machine
  | Goto Label machine
  | JumpTo "64 word" machine
  | Returned machine
  | Aborted
  | Undefined

fun run :: "target \<Rightarrow> masm list \<Rightarrow> Label option \<Rightarrow> machine \<Rightarrow> outcome" where
  "run t [] None s = Fallthrough s"
| "run t [] (Some l) s = Goto l s"
| "run t (i # rest) (Some l) s = (if i = bind_label l then run t rest None s else run t rest (Some l) s)"
| "run t (b_cond c l # rest) None s =
     (if c = al then run t rest (Some l) s
      else case cc s of None \<Rightarrow> Undefined
           | Some k \<Rightarrow> if branch_taken c k then run t rest (Some l) s else run t rest None s)"
| "run t (Jump target_reg # rest) None s = JumpTo (readPu (S390X t) (gpr s target_reg)) s"
| "run t (Ret # rest) None s = Returned s"
| "run t (Abort # rest) None s = Aborted"
| "run t (i # rest) None s = run t rest None (exec t i s)"



section \<open>Instructions after register allocation\<close>

text \<open>Modelled from the spec: the instruction, its operands and its constants are
  declared in \<^verbatim>\<open>src/compiler/instruction.h\<close> and \<^verbatim>\<open>instruction-codes.h\<close>: "an opcode,
  an ordered list of input operands, an ordered list of output operands, optional flags
  (comparison condition, overflow-check request)"; an operand is "a tagged variant over
  general register, floating-point register, stack slot, floating-point stack slot,
  immediate/constant". The opcodes listed are those of the lowering rules embedded
  below.\<close>

datatype FlagsCondition =
    kEqual
  | kNotEqual
  | kSignedLessThan
  | kSignedGreaterThanOrEqual
  | kSignedLessThanOrEqual
  | kSignedGreaterThan
  | kUnsignedLessThan
  | kUnsignedGreaterThanOrEqual
  | kUnsignedLessThanOrEqual
  | kUnsignedGreaterThan
  | kUnorderedEqual
  | kUnorderedNotEqual
  | kOverflow
  | kNotOverflow

datatype FlagsMode = kFlags_none | kFlags_branch | kFlags_set

datatype AddressingMode = kMode_None | kMode_MRI | kMode_MRR

datatype ArchOpcode =
    kArchNop | kArchTableSwitch
  | kS390_And | kS390_AndComplement | kS390_Or | kS390_OrComplement | kS390_Xor
  | kS390_ShiftLeft32 | kS390_ShiftRight32 | kS390_ShiftRightAlg32
  | kS390_Not
  | kS390_Add | kS390_AddWithOverflow32 | kS390_AddDouble
  | kS390_Sub | kS390_SubWithOverflow32 | kS390_SubDouble
  | kS390_MulDouble | kS390_DivDouble
  | kS390_Cmp32 | kS390_Cmp64 | kS390_CmpDouble
  | kS390_LoadWordS8 | kS390_LoadWordU8 | kS390_LoadWordU16 | kS390_LoadWordS16
  | kS390_LoadWordS32 | kS390_LoadWord64 | kS390_LoadFloat32 | kS390_LoadDouble
  | kS390_StoreWord8 | kS390_StoreWord16 | kS390_StoreWord32 | kS390_StoreWord64
  | kS390_StoreFloat32 | kS390_StoreDouble
  | kCheckedLoadInt8 | kCheckedLoadUint8 | kCheckedLoadInt16 | kCheckedLoadUint16
  | kCheckedLoadWord32 | kCheckedLoadWord64 | kCheckedLoadFloat32 | kCheckedLoadFloat64
  | kCheckedStoreWord8 | kCheckedStoreWord16 | kCheckedStoreWord32 | kCheckedStoreWord64
  | kCheckedStoreFloat32 | kCheckedStoreFloat64

datatype Constant =
    kInt32 "32 word"
  | kInt64 "64 word"
  | kFloat32 "32 word"
  | kFloat64 "64 word"
  | kExternalReference
  | kHeapObject
  | kRpoNumber nat

datatype InstructionOperand =
    RegisterOperand Register
  | DoubleRegisterOperand DoubleRegister
  | StackSlotOperand int
  | DoubleStackSlotOperand int
  | ImmediateOperand Constant

record Instruction =
  arch_opcode :: ArchOpcode
  addressing_mode :: AddressingMode
  flags_mode :: FlagsMode
  flags_condition :: FlagsCondition
  inputs :: "InstructionOperand list"
  outputs :: "InstructionOperand list"

subsection \<open>The operand converter\<close>

text \<open>A request for an operand the instruction does not have, or of another kind than
  the one asked for, is fatal in the source ("process-fatal, not recoverable"); here it is
  \<open>None\<close>.\<close>

definition InputAt :: "Instruction \<Rightarrow> nat \<Rightarrow> InstructionOperand option" where
  "InputAt instr index = (if index < length (inputs instr) then Some (inputs instr ! index) else None)"

definition OutputAt :: "Instruction \<Rightarrow> nat \<Rightarrow> InstructionOperand option" where
  "OutputAt instr index = (if index < length (outputs instr) then Some (outputs instr ! index) else None)"

definition InputCount :: "Instruction \<Rightarrow> nat" where
  "InputCount instr = length (inputs instr)"

definition OutputCount :: "Instruction \<Rightarrow> nat" where
  "OutputCount instr = length (outputs instr)"

fun ToRegister :: "InstructionOperand \<Rightarrow> Register option" where
  "ToRegister (RegisterOperand r) = Some r"
| "ToRegister _ = None"

fun ToDoubleRegister :: "InstructionOperand \<Rightarrow> DoubleRegister option" where
  "ToDoubleRegister (DoubleRegisterOperand d) = Some d"
| "ToDoubleRegister _ = None"

fun ToConstant :: "InstructionOperand \<Rightarrow> Constant option" where
  "ToConstant (ImmediateOperand c) = Some c"
| "ToConstant _ = None"

fun ToInt32 :: "Constant \<Rightarrow> 32 word option" where
  "ToInt32 (kInt32 v) = Some v"
| "ToInt32 (kInt64 v) = (if sext32 (lo32 v) = v then Some (lo32 v) else None)"
| "ToInt32 _ = None"

definition InputRegister :: "Instruction \<Rightarrow> nat \<Rightarrow> Register option" where
  "InputRegister instr index = InputAt instr index \<bind> ToRegister"

definition InputDoubleRegister :: "Instruction \<Rightarrow> nat \<Rightarrow> DoubleRegister option" where
  "InputDoubleRegister instr index = InputAt instr index \<bind> ToDoubleRegister"

definition OutputRegisterAt :: "Instruction \<Rightarrow> nat \<Rightarrow> Register option" where
  "OutputRegisterAt instr index = OutputAt instr index \<bind> ToRegister"

definition OutputRegister :: "Instruction \<Rightarrow> Register option" where
  "OutputRegister instr = OutputRegisterAt instr 0"

definition OutputDoubleRegister :: "Instruction \<Rightarrow> DoubleRegister option" where
  "OutputDoubleRegister instr = OutputAt instr 0 \<bind> ToDoubleRegister"

definition InputInt32 :: "Instruction \<Rightarrow> nat \<Rightarrow> 32 word option" where
  "InputInt32 instr index = InputAt instr index \<bind> ToConstant \<bind> ToInt32"

fun ToRpo :: "Constant \<Rightarrow> nat option" where
  "ToRpo (kRpoNumber n) = Some n"
| "ToRpo _ = None"

definition InputRpo :: "Instruction \<Rightarrow> nat \<Rightarrow> nat option" where
  "InputRpo instr index = InputAt instr index \<bind> ToConstant \<bind> ToRpo"

definition GetLabel :: "nat \<Rightarrow> Label" where
  "GetLabel rpo = BlockLabel rpo"

text \<open>\<^verbatim>\<open>S390OperandConverter::CompareLogical\<close>\<close>

fun CompareLogical_of :: "FlagsCondition \<Rightarrow> bool" where
  "CompareLogical_of kUnsignedLessThan = True"
| "CompareLogical_of kUnsignedGreaterThanOrEqual = True"
| "CompareLogical_of kUnsignedLessThanOrEqual = True"
| "CompareLogical_of kUnsignedGreaterThan = True"
| "CompareLogical_of _ = False"

definition CompareLogical :: "Instruction \<Rightarrow> bool" where
  "CompareLogical instr = CompareLogical_of (flags_condition instr)"

text \<open>\<^verbatim>\<open>S390OperandConverter::InputImmediate\<close>: a 32-bit integer constant becomes an
  operand of pointer width; a 64-bit one only with \<^verbatim>\<open>V8_TARGET_ARCH_S390X\<close>. The float
  constants would allocate a heap number, which is outside this model, and every other
  kind is \<^verbatim>\<open>UNREACHABLE()\<close>.\<close>

fun ImmediateOf :: "bool \<Rightarrow> Constant \<Rightarrow> 64 word option" where
  "ImmediateOf x (kInt32 v) = Some (sext32 v)"
| "ImmediateOf x (kInt64 v) = (if x then Some v else None)"
| "ImmediateOf x _ = None"

definition InputImmediate :: "bool \<Rightarrow> Instruction \<Rightarrow> nat \<Rightarrow> 64 word option" where
  "InputImmediate x instr index = InputAt instr index \<bind> ToConstant \<bind> ImmediateOf x"

text \<open>\<^verbatim>\<open>HasRegisterInput\<close>\<close>

definition HasRegisterInput :: "Instruction \<Rightarrow> nat \<Rightarrow> bool" where
  "HasRegisterInput instr index =
     (case InputAt instr index of Some (RegisterOperand r) \<Rightarrow> True | _ \<Rightarrow> False)"

section \<open>The code generator\<close>

text \<open>\<^verbatim>\<open>FlagsConditionToCondition\<close>. \<open>None\<close> is \<^verbatim>\<open>UNREACHABLE()\<close>. The first argument
  is the build configuration \<^verbatim>\<open>V8_TARGET_ARCH_S390X\<close>.\<close>

fun FlagsConditionToCondition :: "bool \<Rightarrow> FlagsCondition \<Rightarrow> ArchOpcode \<Rightarrow> Condition option" where
  "FlagsConditionToCondition x kEqual opc = Some eq"
| "FlagsConditionToCondition x kNotEqual opc = Some ne"
| "FlagsConditionToCondition x kSignedLessThan opc = Some lt"
| "FlagsConditionToCondition x kUnsignedLessThan opc = Some lt"
| "FlagsConditionToCondition x kSignedGreaterThanOrEqual opc = Some ge"
| "FlagsConditionToCondition x kUnsignedGreaterThanOrEqual opc = Some ge"
| "FlagsConditionToCondition x kSignedLessThanOrEqual opc = Some le"
| "FlagsConditionToCondition x kUnsignedLessThanOrEqual opc = Some le"
| "FlagsConditionToCondition x kSignedGreaterThan opc = Some gt"
| "FlagsConditionToCondition x kUnsignedGreaterThan opc = Some gt"
| "FlagsConditionToCondition x kOverflow opc =
     (if x \<and> (opc = kS390_Add \<or> opc = kS390_Sub) then Some lt
      else if opc = kS390_AddWithOverflow32 \<or> opc = kS390_SubWithOverflow32
        then (if x then Some ne else Some lt)
      else None)"
| "FlagsConditionToCondition x kNotOverflow opc =
     (if x \<and> (opc = kS390_Add \<or> opc = kS390_Sub) then Some ge
      else if opc = kS390_AddWithOverflow32 \<or> opc = kS390_SubWithOverflow32
        then (if x then Some eq else Some ge)
      else None)"
| "FlagsConditionToCondition x _ opc = None"

text \<open>\<^verbatim>\<open>ASSEMBLE_COMPARE(cmp_instr, cmpl_instr)\<close>\<close>

definition ASSEMBLE_COMPARE :: "bool \<Rightarrow> Instruction \<Rightarrow> CmpOp \<Rightarrow> CmpOp \<Rightarrow> masm list option" where
  "ASSEMBLE_COMPARE x instr cmp_instr cmpl_instr =
     (if HasRegisterInput instr 1 then
        (if CompareLogical instr then
           do { a \<leftarrow> InputRegister instr 0; c \<leftarrow> InputRegister instr 1;
                Some [Cmp cmpl_instr a (Reg c)] }
         else
           do { a \<leftarrow> InputRegister instr 0; c \<leftarrow> InputRegister instr 1;
                Some [Cmp cmp_instr a (Reg c)] })
      else
        (if CompareLogical instr then
           do { a \<leftarrow> InputRegister instr 0; c \<leftarrow> InputImmediate x instr 1;
                Some [Cmp cmpl_instr a (Imm c)] }
         else
           do { a \<leftarrow> InputRegister instr 0; c \<leftarrow> InputImmediate x instr 1;
                Some [Cmp cmp_instr a (Imm c)] }))"

text \<open>\<^verbatim>\<open>CodeGenerator::AssembleArchBranch\<close>\<close>

record BranchInfo =
  condition :: FlagsCondition
  true_label :: Label
  false_label :: Label
  fallthru :: bool

definition AssembleArchBranch :: "bool \<Rightarrow> Instruction \<Rightarrow> BranchInfo \<Rightarrow> masm list option" where
  "AssembleArchBranch x instr branch =
     do {
       let tlabel = true_label branch;
       let flabel = false_label branch;
       let opc = arch_opcode instr;
       cond \<leftarrow> FlagsConditionToCondition x (condition branch) opc;
       Some ((if opc = kS390_CmpDouble then
                (if cond = le \<or> cond = eq \<or> cond = lt then [bunordered flabel]
                 else if cond = gt \<or> cond = ne \<or> cond = ge then [bunordered tlabel]
                 else [])
              else [])
             @ [b_cond cond tlabel]
             @ (if \<not> fallthru branch then [b_cond al flabel] else []))
     }"

subsection \<open>Out-of-line code\<close>

text \<open>The classes \<^verbatim>\<open>OutOfLineLoadNAN32\<close>, \<^verbatim>\<open>OutOfLineLoadNAN64\<close> and
  \<^verbatim>\<open>OutOfLineLoadZero\<close> with their \<^verbatim>\<open>Generate()\<close>. The literal of the first is
  \<^verbatim>\<open>std::numeric_limits<float>::quiet_NaN()\<close>, which C++ converts to double where it is
  passed to \<^verbatim>\<open>LoadDoubleLiteral\<close>: the fraction of the float NaN moves to the top of the
  double's fraction under an exponent of all ones.\<close>

datatype OutOfLineCode =
    OutOfLineLoadNAN32 DoubleRegister
  | OutOfLineLoadNAN64 DoubleRegister
  | OutOfLineLoadZero Register


definition quiet_NaN_double :: "64 word" where
  "quiet_NaN_double = 0x7FF8000000000000"




subsection \<open>The macros of the lowering rules\<close>

text \<open>A lowering rule returns the calls it emits and the out-of-line objects it creates.
  The number \<open>n\<close> names the labels of an object created by the rule: \<open>OolEntry n\<close> is its
  \<^verbatim>\<open>entry()\<close> and \<open>OolExit n\<close> its \<^verbatim>\<open>exit()\<close>.\<close>

type_synonym emitted = "masm list \<times> OutOfLineCode list"

text \<open>\<^verbatim>\<open>ASSEMBLE_FLOAT_UNOP(asm_instr)\<close>\<close>

definition ASSEMBLE_FLOAT_UNOP :: "Instruction \<Rightarrow> (DoubleRegister \<Rightarrow> DoubleRegister \<Rightarrow> masm) \<Rightarrow> masm list option" where
  "ASSEMBLE_FLOAT_UNOP instr asm_instr =
     do { out \<leftarrow> OutputDoubleRegister instr; a \<leftarrow> InputDoubleRegister instr 0;
          Some [asm_instr out a] }"

text \<open>\<^verbatim>\<open>ASSEMBLE_BINOP(asm_instr_reg, asm_instr_imm)\<close>\<close>

definition ASSEMBLE_BINOP :: "bool \<Rightarrow> Instruction \<Rightarrow> (Register \<Rightarrow> Register \<Rightarrow> Opnd \<Rightarrow> masm)
    \<Rightarrow> (Register \<Rightarrow> Register \<Rightarrow> Opnd \<Rightarrow> masm) \<Rightarrow> masm list option" where
  "ASSEMBLE_BINOP x instr asm_instr_reg asm_instr_imm =
     (if HasRegisterInput instr 1 then
        do { out \<leftarrow> OutputRegister instr; a \<leftarrow> InputRegister instr 0; c \<leftarrow> InputRegister instr 1;
             Some [asm_instr_reg out a (Reg c)] }
      else
        do { out \<leftarrow> OutputRegister instr; a \<leftarrow> InputRegister instr 0; c \<leftarrow> InputImmediate x instr 1;
             Some [asm_instr_imm out a (Imm c)] })"

text \<open>\<^verbatim>\<open>ASSEMBLE_ADD_WITH_OVERFLOW()\<close>\<close>

definition ASSEMBLE_ADD_WITH_OVERFLOW :: "Instruction \<Rightarrow> masm list option" where
  "ASSEMBLE_ADD_WITH_OVERFLOW instr =
     (if HasRegisterInput instr 1 then
        do { out \<leftarrow> OutputRegister instr; a \<leftarrow> InputRegister instr 0; c \<leftarrow> InputRegister instr 1;
             Some [AddAndCheckForOverflow out a (Reg c) kScratchReg r0] }
      else
        do { out \<leftarrow> OutputRegister instr; a \<leftarrow> InputRegister instr 0; c \<leftarrow> InputInt32 instr 1;
             Some [AddAndCheckForOverflow out a (Imm (sext32 c)) kScratchReg r0] })"

text \<open>\<^verbatim>\<open>ASSEMBLE_SUB_WITH_OVERFLOW()\<close>. The negation \<^verbatim>\<open>-i.InputInt32(1)\<close> is an
  \<^verbatim>\<open>int32_t\<close> negation: it wraps at \<open>- 2^31\<close> (where C++ leaves it undefined).\<close>

definition ASSEMBLE_SUB_WITH_OVERFLOW :: "Instruction \<Rightarrow> masm list option" where
  "ASSEMBLE_SUB_WITH_OVERFLOW instr =
     (if HasRegisterInput instr 1 then
        do { out \<leftarrow> OutputRegister instr; a \<leftarrow> InputRegister instr 0; c \<leftarrow> InputRegister instr 1;
             Some [SubAndCheckForOverflow out a c kScratchReg r0] }
      else
        do { out \<leftarrow> OutputRegister instr; a \<leftarrow> InputRegister instr 0; c \<leftarrow> InputInt32 instr 1;
             Some [AddAndCheckForOverflow out a (Imm (sext32 (- c))) kScratchReg r0] })"

text \<open>\<^verbatim>\<open>ASSEMBLE_ADD_WITH_OVERFLOW32()\<close> and \<^verbatim>\<open>ASSEMBLE_SUB_WITH_OVERFLOW32()\<close>, which
  \<^verbatim>\<open>#if V8_TARGET_ARCH_S390X\<close> defines in two ways.\<close>

definition ASSEMBLE_ADD_WITH_OVERFLOW32 :: "bool \<Rightarrow> Instruction \<Rightarrow> masm list option" where
  "ASSEMBLE_ADD_WITH_OVERFLOW32 x instr =
     (if x then
        do { code \<leftarrow> ASSEMBLE_BINOP x instr (BinP AddP) (BinP AddP);
             out \<leftarrow> OutputRegister instr;
             Some (code @ [TestIfInt32 out r0]) }
      else ASSEMBLE_ADD_WITH_OVERFLOW instr)"

definition ASSEMBLE_SUB_WITH_OVERFLOW32 :: "bool \<Rightarrow> Instruction \<Rightarrow> masm list option" where
  "ASSEMBLE_SUB_WITH_OVERFLOW32 x instr =
     (if x then
        do { code \<leftarrow> ASSEMBLE_BINOP x instr (BinP SubP) (BinP SubP);
             out \<leftarrow> OutputRegister instr;
             Some (code @ [TestIfInt32 out r0]) }
      else ASSEMBLE_SUB_WITH_OVERFLOW instr)"

text \<open>\<^verbatim>\<open>S390OperandConverter::MemoryOperand(AddressingMode* mode, size_t* first_index)\<close>:
  the operand and the index after it.\<close>

definition MemoryOperand :: "Instruction \<Rightarrow> nat \<Rightarrow> (MemOperand \<times> nat) option" where
  "MemoryOperand instr first_index =
     (case addressing_mode instr of
        kMode_None \<Rightarrow> None
      | kMode_MRI \<Rightarrow>
          do { base \<leftarrow> InputRegister instr (first_index + 0);
               disp \<leftarrow> InputInt32 instr (first_index + 1);
               Some (MemOperand_RI base disp, first_index + 2) }
      | kMode_MRR \<Rightarrow>
          do { base \<leftarrow> InputRegister instr (first_index + 0);
               index \<leftarrow> InputRegister instr (first_index + 1);
               Some (MemOperand_RR base index, first_index + 2) })"

text \<open>\<^verbatim>\<open>ASSEMBLE_LOAD_FLOAT\<close>, \<^verbatim>\<open>ASSEMBLE_LOAD_INTEGER\<close>, \<^verbatim>\<open>ASSEMBLE_STORE_FLOAT32\<close>,
  \<^verbatim>\<open>ASSEMBLE_STORE_DOUBLE\<close>, \<^verbatim>\<open>ASSEMBLE_STORE_INTEGER\<close>\<close>

definition ASSEMBLE_LOAD_FLOAT :: "Instruction \<Rightarrow> (DoubleRegister \<Rightarrow> MemOperand \<Rightarrow> masm) \<Rightarrow> masm list option" where
  "ASSEMBLE_LOAD_FLOAT instr asm_instr =
     do { result \<leftarrow> OutputDoubleRegister instr;
          (operand, index) \<leftarrow> MemoryOperand instr 0;
          Some [asm_instr result operand] }"

definition ASSEMBLE_LOAD_INTEGER :: "Instruction \<Rightarrow> LoadOp \<Rightarrow> masm list option" where
  "ASSEMBLE_LOAD_INTEGER instr asm_instr =
     do { result \<leftarrow> OutputRegister instr;
          (operand, index) \<leftarrow> MemoryOperand instr 0;
          Some [Load asm_instr result operand] }"

definition ASSEMBLE_STORE_FLOAT32 :: "Instruction \<Rightarrow> masm list option" where
  "ASSEMBLE_STORE_FLOAT32 instr =
     do { (operand, index) \<leftarrow> MemoryOperand instr 0;
          v \<leftarrow> InputDoubleRegister instr index;
          Some [StoreDoubleAsFloat32 v operand kScratchDoubleReg] }"

definition ASSEMBLE_STORE_DOUBLE :: "Instruction \<Rightarrow> masm list option" where
  "ASSEMBLE_STORE_DOUBLE instr =
     do { (operand, index) \<leftarrow> MemoryOperand instr 0;
          v \<leftarrow> InputDoubleRegister instr index;
          Some [StoreF v operand] }"

definition ASSEMBLE_STORE_INTEGER :: "Instruction \<Rightarrow> StoreOp \<Rightarrow> masm list option" where
  "ASSEMBLE_STORE_INTEGER instr asm_instr =
     do { (operand, index) \<leftarrow> MemoryOperand instr 0;
          v \<leftarrow> InputRegister instr index;
          Some [Store asm_instr v operand] }"

text \<open>The comparison of the offset with the length that every \<^verbatim>\<open>ASSEMBLE_CHECKED_*\<close>
  macro makes: \<^verbatim>\<open>if (HasRegisterInput(instr, 2)) CmpLogical32(offset, i.InputRegister(2));
  else CmpLogical32(offset, i.InputImmediate(2));\<close>\<close>

definition checked_compare :: "bool \<Rightarrow> Instruction \<Rightarrow> Register \<Rightarrow> masm option" where
  "checked_compare x instr off =
     (if HasRegisterInput instr 2 then
        do { len \<leftarrow> InputRegister instr 2; Some (Cmp CmpLogical32 off (Reg len)) }
      else
        do { len \<leftarrow> InputImmediate x instr 2; Some (Cmp CmpLogical32 off (Imm len)) })"

text \<open>\<^verbatim>\<open>ASSEMBLE_CHECKED_LOAD_FLOAT(asm_instr, width)\<close>\<close>

definition ASSEMBLE_CHECKED_LOAD_FLOAT :: "bool \<Rightarrow> Instruction \<Rightarrow> nat
    \<Rightarrow> (DoubleRegister \<Rightarrow> MemOperand \<Rightarrow> masm) \<Rightarrow> (DoubleRegister \<Rightarrow> OutOfLineCode) \<Rightarrow> emitted option" where
  "ASSEMBLE_CHECKED_LOAD_FLOAT x instr n asm_instr OutOfLineLoadNAN =
     do { result \<leftarrow> OutputDoubleRegister instr;
          (operand, index) \<leftarrow> MemoryOperand instr 0;
          let off = rb operand;
          cmp \<leftarrow> checked_compare x instr off;
          let ool = OutOfLineLoadNAN result;
          Some ([lgfr off off, cmp, bge (OolEntry n), asm_instr result operand, bind_label (OolExit n)],
                [ool]) }"

text \<open>\<^verbatim>\<open>ASSEMBLE_CHECKED_LOAD_INTEGER(asm_instr)\<close>\<close>

definition ASSEMBLE_CHECKED_LOAD_INTEGER :: "bool \<Rightarrow> Instruction \<Rightarrow> nat \<Rightarrow> LoadOp \<Rightarrow> emitted option" where
  "ASSEMBLE_CHECKED_LOAD_INTEGER x instr n asm_instr =
     do { result \<leftarrow> OutputRegister instr;
          (operand, index) \<leftarrow> MemoryOperand instr 0;
          let off = rb operand;
          cmp \<leftarrow> checked_compare x instr off;
          let ool = OutOfLineLoadZero result;
          Some ([lgfr off off, cmp, bge (OolEntry n), Load asm_instr result operand, bind_label (OolExit n)],
                [ool]) }"

text \<open>\<^verbatim>\<open>ASSEMBLE_CHECKED_STORE_FLOAT32()\<close>, \<^verbatim>\<open>ASSEMBLE_CHECKED_STORE_DOUBLE()\<close> (whose
  \<^verbatim>\<open>DCHECK_EQ(kMode_MRR, mode)\<close> is a failure here) and
  \<^verbatim>\<open>ASSEMBLE_CHECKED_STORE_INTEGER(asm_instr)\<close>. The label \<^verbatim>\<open>done\<close> is local to the
  macro.\<close>

definition ASSEMBLE_CHECKED_STORE_FLOAT32 :: "bool \<Rightarrow> Instruction \<Rightarrow> masm list option" where
  "ASSEMBLE_CHECKED_STORE_FLOAT32 x instr =
     do { (operand, index) \<leftarrow> MemoryOperand instr 0;
          let off = rb operand;
          cmp \<leftarrow> checked_compare x instr off;
          v \<leftarrow> InputDoubleRegister instr 3;
          Some [lgfr off off, cmp, bge (LocalLabel ''done''),
                StoreDoubleAsFloat32 v operand kScratchDoubleReg, bind_label (LocalLabel ''done'')] }"

definition ASSEMBLE_CHECKED_STORE_DOUBLE :: "bool \<Rightarrow> Instruction \<Rightarrow> masm list option" where
  "ASSEMBLE_CHECKED_STORE_DOUBLE x instr =
     do { (operand, index) \<leftarrow> MemoryOperand instr 0;
          _ \<leftarrow> (if addressing_mode instr = kMode_MRR then Some () else None);
          let off = rb operand;
          cmp \<leftarrow> checked_compare x instr off;
          v \<leftarrow> InputDoubleRegister instr 3;
          Some [lgfr off off, cmp, bge (LocalLabel ''done''),
                StoreF v operand, bind_label (LocalLabel ''done'')] }"

definition ASSEMBLE_CHECKED_STORE_INTEGER :: "bool \<Rightarrow> Instruction \<Rightarrow> StoreOp \<Rightarrow> masm list option" where
  "ASSEMBLE_CHECKED_STORE_INTEGER x instr asm_instr =
     do { (operand, index) \<leftarrow> MemoryOperand instr 0;
          let off = rb operand;
          cmp \<leftarrow> checked_compare x instr off;
          v \<leftarrow> InputRegister instr 3;
          Some [lgfr off off, cmp, bge (LocalLabel ''done''),
                Store asm_instr v operand, bind_label (LocalLabel ''done'')] }"

text \<open>The rule shared by \<^verbatim>\<open>kS390_ShiftLeft32\<close>, \<^verbatim>\<open>kS390_ShiftRight32\<close> and
  \<^verbatim>\<open>kS390_ShiftRightAlg32\<close>, which differ in the macro they call.\<close>

definition AssembleShift32 :: "bool \<Rightarrow> Instruction \<Rightarrow> ShiftOp \<Rightarrow> masm list option" where
  "AssembleShift32 x instr asm_instr =
     (if HasRegisterInput instr 1 then
        do { out \<leftarrow> OutputRegister instr; c \<leftarrow> InputRegister instr 1;
             if out = c then
               do { a \<leftarrow> InputRegister instr 0;
                    Some [LoadRR kScratchReg c, Shift32 asm_instr out a (Reg kScratchReg)] }
             else ASSEMBLE_BINOP x instr (Shift32 asm_instr) (Shift32 asm_instr) }
      else ASSEMBLE_BINOP x instr (Shift32 asm_instr) (Shift32 asm_instr))"

text \<open>The rule of \<^verbatim>\<open>kS390_AddDouble\<close> and \<^verbatim>\<open>kS390_MulDouble\<close> ("Ensure we don't clobber
  right"), and the rule of \<^verbatim>\<open>kS390_SubDouble\<close> and \<^verbatim>\<open>kS390_DivDouble\<close>.\<close>

definition AssembleFloatCommutative :: "Instruction \<Rightarrow> FloatBinOp \<Rightarrow> masm list option" where
  "AssembleFloatCommutative instr asm_instr =
     do { out \<leftarrow> OutputDoubleRegister instr; c \<leftarrow> InputDoubleRegister instr 1;
          if out = c then ASSEMBLE_FLOAT_UNOP instr (FloatBin asm_instr)
          else do { a \<leftarrow> InputDoubleRegister instr 0;
                    Some ((if out \<noteq> a then [ldr out a] else []) @ [FloatBin asm_instr out c]) } }"

definition AssembleFloatOrdered :: "Instruction \<Rightarrow> FloatBinOp \<Rightarrow> masm list option" where
  "AssembleFloatOrdered instr asm_instr =
     do { out \<leftarrow> OutputDoubleRegister instr; c \<leftarrow> InputDoubleRegister instr 1;
          a \<leftarrow> InputDoubleRegister instr 0;
          if out = c then
            Some [ldr kScratchDoubleReg c, ldr out a, FloatBin asm_instr out kScratchDoubleReg]
          else
            Some ((if out \<noteq> a then [ldr out a] else []) @ [FloatBin asm_instr out c]) }"

definition plain :: "masm list option \<Rightarrow> emitted option" where
  "plain code = map_option (\<lambda>c. (c, [])) code"

definition only_S390X :: "bool \<Rightarrow> 'a option \<Rightarrow> 'a option" where
  "only_S390X x r = (if x then r else None)"

text \<open>\<^verbatim>\<open>CodeGenerator::AssembleArchInstruction\<close>, for the opcodes above. \<open>None\<close> is
  \<^verbatim>\<open>UNREACHABLE()\<close> or a failed operand request. The case \<^verbatim>\<open>kArchTableSwitch\<close> only calls
  \<^verbatim>\<open>AssembleArchTableSwitch\<close>, which is given further down and has no equation of its
  own here.\<close>

fun AssembleArchInstruction :: "bool \<Rightarrow> Instruction \<Rightarrow> nat \<Rightarrow> ArchOpcode \<Rightarrow> emitted option" where
  "AssembleArchInstruction x instr n kArchNop = Some ([], [])"
| "AssembleArchInstruction x instr n kS390_And = plain (ASSEMBLE_BINOP x instr (BinP AndP) (BinP AndP))"
| "AssembleArchInstruction x instr n kS390_AndComplement =
     plain (do { c \<leftarrow> InputRegister instr 1; out \<leftarrow> OutputRegister instr; a \<leftarrow> InputRegister instr 0;
                 Some [NotP c, BinP AndP out a (Reg c)] })"
| "AssembleArchInstruction x instr n kS390_Or = plain (ASSEMBLE_BINOP x instr (BinP OrP) (BinP OrP))"
| "AssembleArchInstruction x instr n kS390_OrComplement =
     plain (do { c \<leftarrow> InputRegister instr 1; out \<leftarrow> OutputRegister instr; a \<leftarrow> InputRegister instr 0;
                 Some [NotP c, BinP OrP out a (Reg c)] })"
| "AssembleArchInstruction x instr n kS390_Xor = plain (ASSEMBLE_BINOP x instr (BinP XorP) (BinP XorP))"
| "AssembleArchInstruction x instr n kS390_ShiftLeft32 = plain (AssembleShift32 x instr ShiftLeft)"
| "AssembleArchInstruction x instr n kS390_ShiftRight32 = plain (AssembleShift32 x instr ShiftRight)"
| "AssembleArchInstruction x instr n kS390_ShiftRightAlg32 = plain (AssembleShift32 x instr ShiftRightArith)"
| "AssembleArchInstruction x instr n kS390_Not =
     plain (do { out \<leftarrow> OutputRegister instr; a \<leftarrow> InputRegister instr 0;
                 Some [LoadRR out a, NotP out] })"
| "AssembleArchInstruction x instr n kS390_Add =
     plain (if x \<and> flags_mode instr \<noteq> kFlags_none then ASSEMBLE_ADD_WITH_OVERFLOW instr
            else ASSEMBLE_BINOP x instr (BinP AddP) (BinP AddP))"
| "AssembleArchInstruction x instr n kS390_AddWithOverflow32 = plain (ASSEMBLE_ADD_WITH_OVERFLOW32 x instr)"
| "AssembleArchInstruction x instr n kS390_AddDouble = plain (AssembleFloatCommutative instr adbr)"
| "AssembleArchInstruction x instr n kS390_Sub =
     plain (if x \<and> flags_mode instr \<noteq> kFlags_none then ASSEMBLE_SUB_WITH_OVERFLOW instr
            else ASSEMBLE_BINOP x instr (BinP SubP) (BinP SubP))"
| "AssembleArchInstruction x instr n kS390_SubWithOverflow32 = plain (ASSEMBLE_SUB_WITH_OVERFLOW32 x instr)"
| "AssembleArchInstruction x instr n kS390_SubDouble = plain (AssembleFloatOrdered instr sdbr)"
| "AssembleArchInstruction x instr n kS390_MulDouble = plain (AssembleFloatCommutative instr mdbr)"
| "AssembleArchInstruction x instr n kS390_DivDouble = plain (AssembleFloatOrdered instr ddbr)"
| "AssembleArchInstruction x instr n kS390_Cmp32 = plain (ASSEMBLE_COMPARE x instr Cmp32 CmpLogical32)"
| "AssembleArchInstruction x instr n kS390_Cmp64 =
     only_S390X x (plain (ASSEMBLE_COMPARE x instr CmpP CmpLogicalP))"
| "AssembleArchInstruction x instr n kS390_CmpDouble =
     plain (do { a \<leftarrow> InputDoubleRegister instr 0; c \<leftarrow> InputDoubleRegister instr 1;
                 Some [cdbr a c] })"
| "AssembleArchInstruction x instr n kS390_LoadWordS8 =
     plain (do { code \<leftarrow> ASSEMBLE_LOAD_INTEGER instr LoadlB; out \<leftarrow> OutputRegister instr;
                 Some (code @ [if x then lgbr out out else lbr out out]) })"
| "AssembleArchInstruction x instr n kS390_LoadWordU8 = plain (ASSEMBLE_LOAD_INTEGER instr LoadlB)"
| "AssembleArchInstruction x instr n kS390_LoadWordU16 = plain (ASSEMBLE_LOAD_INTEGER instr LoadLogicalHalfWordP)"
| "AssembleArchInstruction x instr n kS390_LoadWordS16 = plain (ASSEMBLE_LOAD_INTEGER instr LoadHalfWordP)"
| "AssembleArchInstruction x instr n kS390_LoadWordS32 = plain (ASSEMBLE_LOAD_INTEGER instr LoadW)"
| "AssembleArchInstruction x instr n kS390_LoadWord64 = only_S390X x (plain (ASSEMBLE_LOAD_INTEGER instr lg))"
| "AssembleArchInstruction x instr n kS390_LoadFloat32 = plain (ASSEMBLE_LOAD_FLOAT instr LoadShortConvertToDoubleF)"
| "AssembleArchInstruction x instr n kS390_LoadDouble = plain (ASSEMBLE_LOAD_FLOAT instr LoadF)"
| "AssembleArchInstruction x instr n kS390_StoreWord8 = plain (ASSEMBLE_STORE_INTEGER instr StoreByte)"
| "AssembleArchInstruction x instr n kS390_StoreWord16 = plain (ASSEMBLE_STORE_INTEGER instr StoreHalfWord)"
| "AssembleArchInstruction x instr n kS390_StoreWord32 = plain (ASSEMBLE_STORE_INTEGER instr StoreW)"
| "AssembleArchInstruction x instr n kS390_StoreWord64 = only_S390X x (plain (ASSEMBLE_STORE_INTEGER instr StoreP))"
| "AssembleArchInstruction x instr n kS390_StoreFloat32 = plain (ASSEMBLE_STORE_FLOAT32 instr)"
| "AssembleArchInstruction x instr n kS390_StoreDouble = plain (ASSEMBLE_STORE_DOUBLE instr)"
| "AssembleArchInstruction x instr n kCheckedLoadInt8 =
     do { (code, ools) \<leftarrow> ASSEMBLE_CHECKED_LOAD_INTEGER x instr n LoadlB; out \<leftarrow> OutputRegister instr;
          Some (code @ [if x then lgbr out out else lbr out out], ools) }"
| "AssembleArchInstruction x instr n kCheckedLoadUint8 = ASSEMBLE_CHECKED_LOAD_INTEGER x instr n LoadlB"
| "AssembleArchInstruction x instr n kCheckedLoadInt16 = ASSEMBLE_CHECKED_LOAD_INTEGER x instr n LoadHalfWordP"
| "AssembleArchInstruction x instr n kCheckedLoadUint16 = ASSEMBLE_CHECKED_LOAD_INTEGER x instr n LoadLogicalHalfWordP"
| "AssembleArchInstruction x instr n kCheckedLoadWord32 = ASSEMBLE_CHECKED_LOAD_INTEGER x instr n LoadW"
| "AssembleArchInstruction x instr n kCheckedLoadWord64 =
     only_S390X x (ASSEMBLE_CHECKED_LOAD_INTEGER x instr n LoadP)"
| "AssembleArchInstruction x instr n kCheckedLoadFloat32 =
     ASSEMBLE_CHECKED_LOAD_FLOAT x instr n LoadShortConvertToDoubleF OutOfLineLoadNAN32"
| "AssembleArchInstruction x instr n kCheckedLoadFloat64 =
     ASSEMBLE_CHECKED_LOAD_FLOAT x instr n LoadF OutOfLineLoadNAN64"
| "AssembleArchInstruction x instr n kCheckedStoreWord8 = plain (ASSEMBLE_CHECKED_STORE_INTEGER x instr StoreByte)"
| "AssembleArchInstruction x instr n kCheckedStoreWord16 = plain (ASSEMBLE_CHECKED_STORE_INTEGER x instr StoreHalfWord)"
| "AssembleArchInstruction x instr n kCheckedStoreWord32 = plain (ASSEMBLE_CHECKED_STORE_INTEGER x instr StoreW)"
| "AssembleArchInstruction x instr n kCheckedStoreWord64 =
     only_S390X x (plain (ASSEMBLE_CHECKED_STORE_INTEGER x instr StoreP))"
| "AssembleArchInstruction x instr n kCheckedStoreFloat32 = plain (ASSEMBLE_CHECKED_STORE_FLOAT32 x instr)"
| "AssembleArchInstruction x instr n kCheckedStoreFloat64 = plain (ASSEMBLE_CHECKED_STORE_DOUBLE x instr)"

definition Assemble :: "bool \<Rightarrow> Instruction \<Rightarrow> nat \<Rightarrow> emitted option" where
  "Assemble x instr n = AssembleArchInstruction x instr n (arch_opcode instr)"

text \<open>\<^verbatim>\<open>CodeGenerator::AssembleArchBoolean\<close>. The two \<^verbatim>\<open>DCHECK\<close>s are failures here. The
  labels \<^verbatim>\<open>done\<close>, \<^verbatim>\<open>cond_true\<close> and \<^verbatim>\<open>cond_false\<close> are local to the function.\<close>

definition DCHECK :: "bool \<Rightarrow> unit option" where
  "DCHECK c = (if c then Some () else None)"

definition AssembleArchBoolean :: "bool \<Rightarrow> Instruction \<Rightarrow> FlagsCondition \<Rightarrow> masm list option" where
  "AssembleArchBoolean x instr flags_cond =
     do {
       let done = LocalLabel ''done'';
       let opc = arch_opcode instr;
       let check_unordered = (opc = kS390_CmpDouble);
       _ \<leftarrow> DCHECK ((flags_cond \<noteq> kOverflow \<and> flags_cond \<noteq> kNotOverflow) \<or>
                    (opc = kS390_AddWithOverflow32 \<or> opc = kS390_SubWithOverflow32));
       _ \<leftarrow> DCHECK (OutputCount instr \<noteq> 0);
       reg \<leftarrow> OutputRegisterAt instr (OutputCount instr - 1);
       cond \<leftarrow> FlagsConditionToCondition x flags_cond opc;
       body \<leftarrow>
         (if cond = ne \<or> cond = ge \<or> cond = gt then
            (if check_unordered then
               Some [LoadImmP reg 1, LoadImmP kScratchReg 0, bunordered done,
                     b_cond cond (LocalLabel ''cond_true''), LoadRR reg kScratchReg,
                     bind_label (LocalLabel ''cond_true'')]
             else
               Some [LoadImmP reg 1, b_cond cond (LocalLabel ''cond_true''), LoadImmP reg 0,
                     bind_label (LocalLabel ''cond_true'')])
          else if cond = eq \<or> cond = lt \<or> cond = le then
            do { negated \<leftarrow> NegateCondition cond;
                 if check_unordered then
                   Some [LoadImmP reg 0, LoadImmP kScratchReg 1, bunordered done,
                         b_cond negated (LocalLabel ''cond_false''), LoadRR reg kScratchReg,
                         bind_label (LocalLabel ''cond_false'')]
                 else
                   Some [LoadImmP reg 0, b_cond negated (LocalLabel ''cond_false''), LoadImmP reg 1,
                         bind_label (LocalLabel ''cond_false'')] }
          else None);
       Some (body @ [bind_label done])
     }"

subsection \<open>Table switches\<close>

text \<open>\<^verbatim>\<open>CodeGenerator::AssembleArchTableSwitch\<close> and \<^verbatim>\<open>AssembleJumpTable\<close>. The
  first returns its code and the targets it hands to \<^verbatim>\<open>AddJumpTable\<close>, whose label is
  \<open>JumpTableLabel table\<close>. \<^verbatim>\<open>case_count\<close> is an \<^verbatim>\<open>int32_t\<close>.\<close>

fun InputRpos :: "Instruction \<Rightarrow> nat list \<Rightarrow> Label list option" where
  "InputRpos instr [] = Some []"
| "InputRpos instr (index # rest) =
     do { rpo \<leftarrow> InputRpo instr (index + 2);
          labels \<leftarrow> InputRpos instr rest;
          Some (GetLabel rpo # labels) }"

definition AssembleArchTableSwitch :: "target \<Rightarrow> Instruction \<Rightarrow> nat \<Rightarrow> (masm list \<times> Label list) option" where
  "AssembleArchTableSwitch t instr table =
     do {
       input \<leftarrow> InputRegister instr 0;
       let case_count = (word_of_int (int (InputCount instr) - 2) :: 32 word);
       cases \<leftarrow> InputRpos instr [0..<nat (sint case_count)];
       default \<leftarrow> InputRpo instr 1;
       Some ([Cmp CmpLogicalP input (Imm (sext32 case_count)),
              bge (GetLabel default),
              larl kScratchReg (JumpTableLabel table),
              ShiftLeftP r1 input (Imm (of_nat (kPointerSizeLog2 t))),
              Load LoadP kScratchReg (MemOperand_RR kScratchReg r1),
              Jump kScratchReg],
             cases)
     }"

definition AssembleJumpTable :: "Label list \<Rightarrow> masm list" where
  "AssembleJumpTable targets = map emit_label_addr targets"

text \<open>Modelled from the spec: a jump table is "an ordered sequence of resolved label
  addresses", emitted as a data block after the code and bound to its label. The words
  that \<^verbatim>\<open>AssembleJumpTable\<close> emitted are in memory from the address of the table's label
  on, one pointer each.\<close>

fun emitted_address :: "target \<Rightarrow> masm \<Rightarrow> 64 word option" where
  "emitted_address t (emit_label_addr l) = Some (readPu (S390X t) (label_address t l))"
| "emitted_address t _ = None"

definition table_entry_address :: "target \<Rightarrow> Label \<Rightarrow> nat \<Rightarrow> 64 word" where
  "table_entry_address t table i =
     effective_address t (label_address t table + of_nat (i * kPointerSize t))"

definition jump_table_in_memory :: "target \<Rightarrow> machine \<Rightarrow> Label \<Rightarrow> masm list \<Rightarrow> bool" where
  "jump_table_in_memory t s table items =
     list_all (\<lambda>i. Some (load_value t LoadP (mem s) (table_entry_address t table i))
                     = emitted_address t (items ! i)) [0..<length items]"

subsection \<open>Space for lazy deoptimization\<close>

text \<open>\<^verbatim>\<open>CodeGenerator::EnsureSpaceForLazyDeopt\<close>. The state is what the function reads
  and writes: the calls emitted so far, \<^verbatim>\<open>masm()->pc_offset()\<close> and
  \<^verbatim>\<open>last_lazy_deopt_pc_\<close>. \<^verbatim>\<open>info()->ShouldEnsureSpaceForLazyDeopt()\<close> and
  \<^verbatim>\<open>Deoptimizer::patch_size()\<close> are arguments. A \<^verbatim>\<open>nop\<close> is two bytes long (the loop
  counts it so). The \<^verbatim>\<open>DCHECK_EQ(0, padding_size % 2)\<close> is a failure here.\<close>

record CodeGenerator =
  emitted_code :: "masm list"
  pc_offset :: int
  last_lazy_deopt_pc :: int

definition emit_nop :: "CodeGenerator \<Rightarrow> CodeGenerator" where
  "emit_nop g = g\<lparr>emitted_code := emitted_code g @ [nop], pc_offset := pc_offset g + 2\<rparr>"

function emit_padding :: "CodeGenerator \<Rightarrow> int \<Rightarrow> CodeGenerator" where
  "emit_padding g padding_size =
     (if padding_size > 0 then emit_padding (emit_nop g) (padding_size - 2) else g)"
  by pat_completeness auto
termination
  by (relation "measure (\<lambda>(g, padding_size). nat padding_size)") auto

definition EnsureSpaceForLazyDeopt :: "bool \<Rightarrow> int \<Rightarrow> CodeGenerator \<Rightarrow> CodeGenerator option" where
  "EnsureSpaceForLazyDeopt ShouldEnsureSpaceForLazyDeopt patch_size g =
     (if \<not> ShouldEnsureSpaceForLazyDeopt then Some g
      else
        let space_needed = patch_size;
            current_pc = pc_offset g
        in if current_pc < last_lazy_deopt_pc g + space_needed then
             (let padding_size = last_lazy_deopt_pc g + space_needed - current_pc
              in do { _ \<leftarrow> DCHECK (padding_size mod 2 = 0);
                      Some (emit_padding g padding_size) })
           else Some g)"

text \<open>Modelled from the spec: \<^verbatim>\<open>RecordCallPosition\<close> is in
  \<^verbatim>\<open>src/compiler/code-generator.cc\<close>. At a call site that can deoptimize lazily it records
  the offset after the call as \<^verbatim>\<open>last_lazy_deopt_pc_\<close> (one of the "lazy-deopt padding
  positions"). \<open>emit_call\<close> stands for the call itself, \<open>call_size\<close> bytes long.\<close>

definition MarkLazyDeoptSite :: "CodeGenerator \<Rightarrow> CodeGenerator" where
  "MarkLazyDeoptSite g = g\<lparr>last_lazy_deopt_pc := pc_offset g\<rparr>"

definition emit_call :: "masm list \<Rightarrow> int \<Rightarrow> CodeGenerator \<Rightarrow> CodeGenerator" where
  "emit_call call call_size g = g\<lparr>emitted_code := emitted_code g @ call, pc_offset := pc_offset g + call_size\<rparr>"

subsection \<open>Frames\<close>

























subsection \<open>What a comparison and an overflow check are to compute\<close>

text \<open>The relation a flags condition asks for between two words, and whether the sum or
  the difference of two words overflows as a signed number of their width.\<close>

fun relation :: "FlagsCondition \<Rightarrow> 'a::len word \<Rightarrow> 'a word \<Rightarrow> bool option" where
  "relation kEqual a c = Some (a = c)"
| "relation kNotEqual a c = Some (a \<noteq> c)"
| "relation kSignedLessThan a c = Some (sint a < sint c)"
| "relation kSignedGreaterThanOrEqual a c = Some (sint a \<ge> sint c)"
| "relation kSignedLessThanOrEqual a c = Some (sint a \<le> sint c)"
| "relation kSignedGreaterThan a c = Some (sint a > sint c)"
| "relation kUnsignedLessThan a c = Some (unat a < unat c)"
| "relation kUnsignedGreaterThanOrEqual a c = Some (unat a \<ge> unat c)"
| "relation kUnsignedLessThanOrEqual a c = Some (unat a \<le> unat c)"
| "relation kUnsignedGreaterThan a c = Some (unat a > unat c)"
| "relation _ a c = None"

definition requested_relation :: "ArchOpcode \<Rightarrow> FlagsCondition \<Rightarrow> 64 word \<Rightarrow> 64 word \<Rightarrow> bool option" where
  "requested_relation opc fc a c =
     (if opc = kS390_Cmp32 then relation fc (lo32 a) (lo32 c) else relation fc a c)"

fun second_operand :: "InstructionOperand \<Rightarrow> Opnd option" where
  "second_operand (RegisterOperand r) = Some (Reg r)"
| "second_operand (ImmediateOperand (kInt32 k)) = Some (Imm (sext32 k))"
| "second_operand _ = None"

definition in_signed_range :: "nat \<Rightarrow> int \<Rightarrow> bool" where
  "in_signed_range n v = (- (2 ^ (n - 1)) \<le> v \<and> v < 2 ^ (n - 1))"

definition add_overflows :: "'a::len word \<Rightarrow> 'a word \<Rightarrow> bool" where
  "add_overflows a c = (\<not> in_signed_range LENGTH('a) (sint a + sint c))"

definition sub_overflows :: "'a::len word \<Rightarrow> 'a word \<Rightarrow> bool" where
  "sub_overflows a c = (\<not> in_signed_range LENGTH('a) (sint a - sint c))"

subsection \<open>What the lowering rules are to compute\<close>

text \<open>The macro that a shift opcode and an integer opcode stand for.\<close>

fun shift_of :: "ArchOpcode \<Rightarrow> ShiftOp option" where
  "shift_of kS390_ShiftLeft32 = Some ShiftLeft"
| "shift_of kS390_ShiftRight32 = Some ShiftRight"
| "shift_of kS390_ShiftRightAlg32 = Some ShiftRightArith"
| "shift_of _ = None"

fun binop_of :: "ArchOpcode \<Rightarrow> BinOp option" where
  "binop_of kS390_And = Some AndP"
| "binop_of kS390_Or = Some OrP"
| "binop_of kS390_Xor = Some XorP"
| "binop_of kS390_Add = Some AddP"
| "binop_of kS390_Sub = Some SubP"
| "binop_of _ = None"












subsection \<open>A concrete target and machine\<close>

text \<open>Used where a statement is instantiated: a target whose double arithmetic is left
  trivial (no statement below depends on it) and a machine with all registers and memory
  zero.\<close>

definition sample_target :: "bool \<Rightarrow> target" where
  "sample_target x = \<lparr>S390X = x, DISTINCT_OPS = False,
     fadd = (\<lambda>a c. a + c), fsub = (\<lambda>a c. a - c), fmul = (\<lambda>a c. a * c), fdiv = (\<lambda>a c. a div c),
     float_to_double = (\<lambda>v. push_bit 29 (zext32 v)), double_to_float = (\<lambda>v. lo32 (drop_bit 29 v)),
     label_address = (\<lambda>l. 0), stub_marker = 0\<rparr>"

definition zero_machine :: machine where
  "zero_machine = \<lparr>gpr = (\<lambda>r. 0), fpr = (\<lambda>d. 0), mem = (\<lambda>a. 0), cc = None\<rparr>"

section \<open>Properties\<close>

lemmas reg_defs = r0_def r1_def r2_def r3_def r4_def r5_def r6_def fp_def ip_def r13_def
  r14_def sp_def kScratchReg_def kScratchDoubleReg_def

subsection \<open>Words\<close>

lemma take_bit_32_add_64: "take_bit 32 (take_bit 64 a + take_bit 64 c) = take_bit 32 ((a::int) + c)"
proof -
  have "take_bit 32 (take_bit 64 a + take_bit 64 c)
      = take_bit 32 (take_bit 64 (take_bit 64 a + take_bit 64 c))"
    by simp
  also have "\<dots> = take_bit 32 (take_bit 64 (a + c))" by (simp only: take_bit_add)
  finally show ?thesis by simp
qed

lemma take_bit_32_diff_64: "take_bit 32 (take_bit 64 a - take_bit 64 c) = take_bit 32 ((a::int) - c)"
proof -
  have "take_bit 32 (take_bit 64 a - take_bit 64 c)
      = take_bit 32 (take_bit 64 (take_bit 64 a - take_bit 64 c))"
    by simp
  also have "\<dots> = take_bit 32 (take_bit 64 (a - c))" by (simp only: take_bit_diff)
  finally show ?thesis by simp
qed

lemma lo32_add: "lo32 (a + c) = lo32 a + lo32 c"
  unfolding lo32_def by transfer (simp add: take_bit_32_add_64)

lemma lo32_sub: "lo32 (a - c) = lo32 a - lo32 c"
  unfolding lo32_def by transfer (simp add: take_bit_32_diff_64)

lemma lo32_and: "lo32 (a AND c) = lo32 a AND lo32 c"
  unfolding lo32_def by (rule bit_word_eqI) (simp add: bit_simps)

lemma lo32_or: "lo32 (a OR c) = lo32 a OR lo32 c"
  unfolding lo32_def by (rule bit_word_eqI) (simp add: bit_simps)

lemma lo32_xor: "lo32 (a XOR c) = lo32 a XOR lo32 c"
  unfolding lo32_def by (rule bit_word_eqI) (simp add: bit_simps)

lemma lo32_not: "lo32 (NOT a) = NOT (lo32 a)"
  unfolding lo32_def by (rule bit_word_eqI) (auto simp add: bit_simps)

lemma lo32_sext32: "lo32 (sext32 v) = v"
  unfolding lo32_def sext32_def by (rule bit_word_eqI) (auto simp add: bit_simps)

lemma lo32_zext32: "lo32 (zext32 v) = v"
  unfolding lo32_def zext32_def by (rule bit_word_eqI) (auto simp add: bit_simps)

lemma high_mask: "(0xFFFFFFFF00000000::64 word) = NOT (mask 32)"
  by (simp add: mask_eq_exp_minus_1)

lemma lo32_set_lo32: "lo32 (set_lo32 old v) = v"
  unfolding lo32_def set_lo32_def zext32_def high_mask
  by (rule bit_word_eqI) (auto simp add: bit_simps)

lemma lo32_neg: "lo32 (- a) = - lo32 a"
  using lo32_sub [of 0 a] by (simp add: lo32_def)

lemma lo32_numeral: "lo32 (numeral n) = numeral n"
  unfolding lo32_def by transfer (simp only: take_bit_take_bit, simp)

lemma lo32_0: "lo32 0 = 0"
  by (simp add: lo32_def)

lemma lo32_1: "lo32 1 = 1"
  by (simp add: lo32_def)

lemmas lo32_simps = lo32_add lo32_sub lo32_and lo32_or lo32_xor lo32_not lo32_sext32 lo32_zext32
  lo32_set_lo32 lo32_neg lo32_numeral lo32_0 lo32_1

lemma lo32_writeP: "lo32 (writeP x old v) = lo32 v"
  by (simp add: writeP_def lo32_set_lo32)


lemma readPu_writeP: "readPu x (writeP x old v) = readPu x v"
  by (simp add: readPu_def writeP_def lo32_set_lo32)

lemma sint_eq_iff: "sint (a::'a::len word) = sint c \<longleftrightarrow> a = c"
  by (auto dest: arg_cong [where f = "word_of_int :: int \<Rightarrow> 'a word"])

lemma unat_eq_iff: "unat (a::'a::len word) = unat c \<longleftrightarrow> a = c"
  by (rule word_unat_eq_iff [symmetric])

lemma sint_range:
  "- (2 ^ (LENGTH('a) - 1)) \<le> sint (w::'a::len word)" "sint w < 2 ^ (LENGTH('a) - 1)"
  using sint_ge [of w] sint_lt [of w] by simp_all

subsection \<open>Signed overflow\<close>

text \<open>The sum of two numbers of a width, wrapped to that width, is the sum itself or
  off by the modulus.\<close>

lemma signed_take_bit_cases:
  fixes S :: int
  assumes "- (2 * 2 ^ k) \<le> S" "S < 2 * 2 ^ k"
  shows "signed_take_bit k S =
     (if S < - (2 ^ k) then S + 2 * 2 ^ k else if 2 ^ k \<le> S then S - 2 * 2 ^ k else S)"
proof -
  define P :: int where "P = 2 ^ k"
  have P: "0 < P" by (simp add: P_def)
  have stb: "signed_take_bit k S = (S + P) mod (2 * P) - P"
    by (simp add: signed_take_bit_eq_take_bit_shift take_bit_eq_mod P_def)
  have b: "- (2 * P) \<le> S" "S < 2 * P" using assms by (simp_all add: P_def)
  consider "S < - P" | "- P \<le> S \<and> S < P" | "P \<le> S" by linarith
  then have "(S + P) mod (2 * P) - P = (if S < - P then S + 2 * P else if P \<le> S then S - 2 * P else S)"
  proof cases
    case 1
    have "(S + P) mod (2 * P) = (S + P + 2 * P) mod (2 * P)" by (simp only: mod_add_self2)
    also have "\<dots> = S + P + 2 * P" using 1 b P by (intro mod_pos_pos_trivial) linarith+
    finally show ?thesis using 1 by simp
  next
    case 2
    have "(S + P) mod (2 * P) = S + P" using 2 P by (intro mod_pos_pos_trivial) linarith+
    then show ?thesis using 2 by simp
  next
    case 3
    have "(S + P) mod (2 * P) = (S + P - 2 * P) mod (2 * P)" by (simp only: minus_mod_self2)
    also have "\<dots> = S + P - 2 * P" using 3 b P by (intro mod_pos_pos_trivial) linarith+
    finally show ?thesis using 3 P by simp
  qed
  then show ?thesis by (simp add: stb P_def)
qed

text \<open>The test of \<^verbatim>\<open>AddAndCheckForOverflow\<close>: the sum overflows when both operands
  differ in sign from it.\<close>

lemma add_overflow_sign:
  fixes a c :: "'a::len word"
  shows "sint (((a + c) XOR a) AND ((a + c) XOR c)) < 0 \<longleftrightarrow> add_overflows a c"
proof -
  define k where "k = LENGTH('a) - 1"
  define P :: int where "P = 2 ^ k"
  have P: "0 < P" by (simp add: P_def)
  have ra: "- P \<le> sint a" "sint a < P" and rc: "- P \<le> sint c" "sint c < P"
    using sint_range [of a] sint_range [of c] by (simp_all add: P_def k_def)
  have sum: "sint (a + c) = (if sint a + sint c < - P then sint a + sint c + 2 * P
       else if P \<le> sint a + sint c then sint a + sint c - 2 * P else sint a + sint c)"
    unfolding sint_word_add P_def k_def [symmetric]
    using ra rc by (subst signed_take_bit_cases) (simp_all add: P_def)
  have lhs: "sint (((a + c) XOR a) AND ((a + c) XOR c)) < 0 \<longleftrightarrow>
      ((sint (a + c) < 0) \<noteq> (sint a < 0)) \<and> ((sint (a + c) < 0) \<noteq> (sint c < 0))"
    by (simp add: bit_last_iff [symmetric] bit_simps)
  show ?thesis
    unfolding lhs add_overflows_def in_signed_range_def k_def [symmetric] P_def [symmetric] sum
    using ra rc P by auto
qed

text \<open>The test of \<^verbatim>\<open>SubAndCheckForOverflow\<close>\<close>

lemma sub_overflow_sign:
  fixes a c :: "'a::len word"
  shows "sint ((a XOR c) AND (a XOR (a - c))) < 0 \<longleftrightarrow> sub_overflows a c"
proof -
  define k where "k = LENGTH('a) - 1"
  define P :: int where "P = 2 ^ k"
  have P: "0 < P" by (simp add: P_def)
  have ra: "- P \<le> sint a" "sint a < P" and rc: "- P \<le> sint c" "sint c < P"
    using sint_range [of a] sint_range [of c] by (simp_all add: P_def k_def)
  have diff: "sint (a - c) = (if sint a - sint c < - P then sint a - sint c + 2 * P
       else if P \<le> sint a - sint c then sint a - sint c - 2 * P else sint a - sint c)"
    unfolding sint_word_diff P_def k_def [symmetric]
    using ra rc by (subst signed_take_bit_cases) (simp_all add: P_def)
  have lhs: "sint ((a XOR c) AND (a XOR (a - c))) < 0 \<longleftrightarrow>
      ((sint a < 0) \<noteq> (sint c < 0)) \<and> ((sint a < 0) \<noteq> (sint (a - c) < 0))"
    by (simp add: bit_last_iff [symmetric] bit_simps)
  show ?thesis
    unfolding lhs sub_overflows_def in_signed_range_def k_def [symmetric] P_def [symmetric] diff
    using ra rc P by auto
qed

lemma sint_neg_eq:
  fixes c :: "'a::len word"
  assumes "sint c \<noteq> - (2 ^ (LENGTH('a) - 1))"
  shows "sint (- c) = - sint c"
proof -
  have "sint (- c) = signed_take_bit (LENGTH('a) - 1) (- sint c)"
    by (simp add: sint_word_ariths)
  also have "\<dots> = - sint c"
    using sint_range [of c] assms by (intro signed_take_bit_int_eq_self) linarith+
  finally show ?thesis .
qed

lemma add_neg_overflows:
  fixes a c :: "'a::len word"
  assumes "sint c \<noteq> - (2 ^ (LENGTH('a) - 1))"
  shows "add_overflows a (- c) \<longleftrightarrow> sub_overflows a c"
  by (simp add: add_overflows_def sub_overflows_def sint_neg_eq [OF assms])

lemma sint_min32: "sint (c::32 word) = - (2 ^ 31) \<longleftrightarrow> c = 0x80000000"
proof
  assume "sint c = - (2 ^ 31)"
  then have "word_of_int (sint c) = (word_of_int (- (2 ^ 31)) :: 32 word)" by simp
  then show "c = 0x80000000" by simp
qed simp

subsection \<open>Branches after a double comparison\<close>

text \<open>
  C4. For a branch assembled after \<^verbatim>\<open>kS390_CmpDouble\<close>, whatever of the ten comparison
  conditions \<^verbatim>\<open>branch->condition\<close> is: when an operand of the comparison is a NaN, running
  the compare and the code of \<^verbatim>\<open>AssembleArchBranch\<close> leaves for exactly one target, the
  false label when the condition is less-than, less-than-or-equal or equal (signed or
  unsigned) and the true label when it is greater-than, greater-than-or-equal or
  not-equal; the code never falls through (with or without \<^verbatim>\<open>fallthru\<close>).
\<close>

theorem AssembleArchBranch_unordered:
  assumes opc: "arch_opcode instr = kS390_CmpDouble"
    and ins: "inputs instr = [DoubleRegisterOperand a, DoubleRegisterOperand c]"
    and fc: "condition branch \<in> {kEqual, kNotEqual,
               kSignedLessThan, kSignedGreaterThanOrEqual, kSignedLessThanOrEqual, kSignedGreaterThan,
               kUnsignedLessThan, kUnsignedGreaterThanOrEqual, kUnsignedLessThanOrEqual,
               kUnsignedGreaterThan}"
    and nan: "is_nan64 (fpr s a) \<or> is_nan64 (fpr s c)"
  shows "\<exists>cmp br. Assemble (S390X t) instr n = Some (cmp, []) \<and>
      AssembleArchBranch (S390X t) instr branch = Some br \<and>
      run t (cmp @ br) None s =
        Goto (if condition branch \<in> {kSignedLessThan, kUnsignedLessThan,
                                       kSignedLessThanOrEqual, kUnsignedLessThanOrEqual, kEqual}
              then false_label branch else true_label branch)
          (s\<lparr>cc := Some CC3\<rparr>)"
proof -
  have cmp: "Assemble (S390X t) instr n = Some ([cdbr a c], [])"
    by (simp add: Assemble_def opc ins plain_def InputDoubleRegister_def InputAt_def)
  have cc3: "compare_double (fpr s a) (fpr s c) = CC3"
    using nan by (auto simp: compare_double_def)
  show ?thesis
    using fc
    by (cases "condition branch")
       (auto simp: cmp AssembleArchBranch_def opc cc3 branch_taken_def Let_def split: if_splits)
qed

theorem AssembleArchBranch_unordered_witness:
  "(\<exists>cmp br.
     Assemble True \<lparr>arch_opcode = kS390_CmpDouble, addressing_mode = kMode_None,
         flags_mode = kFlags_branch, flags_condition = kUnsignedLessThan,
         inputs = [DoubleRegisterOperand (DoubleRegister 1), DoubleRegisterOperand (DoubleRegister 2)],
         outputs = []\<rparr> 0 = Some (cmp, []) \<and>
     AssembleArchBranch True \<lparr>arch_opcode = kS390_CmpDouble, addressing_mode = kMode_None,
         flags_mode = kFlags_branch, flags_condition = kUnsignedLessThan,
         inputs = [DoubleRegisterOperand (DoubleRegister 1), DoubleRegisterOperand (DoubleRegister 2)],
         outputs = []\<rparr>
       \<lparr>condition = kUnsignedLessThan, true_label = BlockLabel 1, false_label = BlockLabel 2,
        fallthru = True\<rparr> = Some br \<and>
     run (sample_target True) (cmp @ br) None
         (zero_machine\<lparr>fpr := (\<lambda>d. 0)(DoubleRegister 1 := quiet_NaN_double)\<rparr>) =
       Goto (BlockLabel 2)
         (zero_machine\<lparr>fpr := (\<lambda>d. 0)(DoubleRegister 1 := quiet_NaN_double), cc := Some CC3\<rparr>)) \<and>
   (\<exists>cmp br.
     Assemble True \<lparr>arch_opcode = kS390_CmpDouble, addressing_mode = kMode_None,
         flags_mode = kFlags_branch, flags_condition = kSignedGreaterThan,
         inputs = [DoubleRegisterOperand (DoubleRegister 1), DoubleRegisterOperand (DoubleRegister 2)],
         outputs = []\<rparr> 0 = Some (cmp, []) \<and>
     AssembleArchBranch True \<lparr>arch_opcode = kS390_CmpDouble, addressing_mode = kMode_None,
         flags_mode = kFlags_branch, flags_condition = kSignedGreaterThan,
         inputs = [DoubleRegisterOperand (DoubleRegister 1), DoubleRegisterOperand (DoubleRegister 2)],
         outputs = []\<rparr>
       \<lparr>condition = kSignedGreaterThan, true_label = BlockLabel 1, false_label = BlockLabel 2,
        fallthru = False\<rparr> = Some br \<and>
     run (sample_target True) (cmp @ br) None
         (zero_machine\<lparr>fpr := (\<lambda>d. 0)(DoubleRegister 1 := quiet_NaN_double)\<rparr>) =
       Goto (BlockLabel 1)
         (zero_machine\<lparr>fpr := (\<lambda>d. 0)(DoubleRegister 1 := quiet_NaN_double), cc := Some CC3\<rparr>))"
  using AssembleArchBranch_unordered [of
      "\<lparr>arch_opcode = kS390_CmpDouble, addressing_mode = kMode_None,
         flags_mode = kFlags_branch, flags_condition = kUnsignedLessThan,
         inputs = [DoubleRegisterOperand (DoubleRegister 1), DoubleRegisterOperand (DoubleRegister 2)],
         outputs = []\<rparr>"
      "DoubleRegister 1" "DoubleRegister 2"
      "\<lparr>condition = kUnsignedLessThan, true_label = BlockLabel 1, false_label = BlockLabel 2,
        fallthru = True\<rparr>"
      "zero_machine\<lparr>fpr := (\<lambda>d. 0)(DoubleRegister 1 := quiet_NaN_double)\<rparr>" "sample_target True" 0]
    AssembleArchBranch_unordered [of
      "\<lparr>arch_opcode = kS390_CmpDouble, addressing_mode = kMode_None,
         flags_mode = kFlags_branch, flags_condition = kSignedGreaterThan,
         inputs = [DoubleRegisterOperand (DoubleRegister 1), DoubleRegisterOperand (DoubleRegister 2)],
         outputs = []\<rparr>"
      "DoubleRegister 1" "DoubleRegister 2"
      "\<lparr>condition = kSignedGreaterThan, true_label = BlockLabel 1, false_label = BlockLabel 2,
        fallthru = False\<rparr>"
      "zero_machine\<lparr>fpr := (\<lambda>d. 0)(DoubleRegister 1 := quiet_NaN_double)\<rparr>" "sample_target True" 0]
  by (simp add: sample_target_def is_nan64_def quiet_NaN_double_def)

subsection \<open>Compare and branch\<close>

lemma ASSEMBLE_COMPARE_two:
  assumes ins: "inputs instr = [RegisterOperand a, second]"
    and snd: "second_operand second = Some opnd"
  shows "ASSEMBLE_COMPARE x instr cmp1 cmp2 =
       Some [Cmp (if CompareLogical instr then cmp2 else cmp1) a opnd]"
  using snd ins
  by (cases second rule: second_operand.cases)
     (auto simp: ASSEMBLE_COMPARE_def HasRegisterInput_def InputAt_def InputRegister_def
         InputImmediate_def)

text \<open>
  C9. \<^verbatim>\<open>FlagsConditionToCondition\<close> maps the signed and the unsigned variant of each
  ordering to the same branch condition; \<^verbatim>\<open>CompareLogical\<close> holds for exactly the four
  unsigned conditions, and \<^verbatim>\<open>ASSEMBLE_COMPARE\<close> then emits the logical compare
  (\<^verbatim>\<open>CmpLogical32\<close>, \<^verbatim>\<open>CmpLogicalP\<close>), else the arithmetic one (\<^verbatim>\<open>Cmp32\<close>, \<^verbatim>\<open>CmpP\<close>).
  For \<^verbatim>\<open>kS390_Cmp32\<close>, and for \<^verbatim>\<open>kS390_Cmp64\<close> with \<^verbatim>\<open>V8_TARGET_ARCH_S390X\<close>, the compare
  followed by a branch on the mapped condition is taken exactly when the requested
  relation (signed or unsigned, on 32 or 64 bits) holds between the two operands.
\<close>

theorem compare_and_branch_implements_relation:
  assumes opc: "arch_opcode instr = kS390_Cmp32 \<or> (S390X t \<and> arch_opcode instr = kS390_Cmp64)"
    and ins: "inputs instr = [RegisterOperand a, second]"
    and snd: "second_operand second = Some opnd"
    and rel: "requested_relation (arch_opcode instr) (flags_condition instr) (gpr s a) (opnd_value s opnd)
                = Some holds"
  shows "FlagsConditionToCondition (S390X t) kSignedLessThan (arch_opcode instr) = Some lt \<and>
         FlagsConditionToCondition (S390X t) kUnsignedLessThan (arch_opcode instr) = Some lt \<and>
         FlagsConditionToCondition (S390X t) kSignedGreaterThanOrEqual (arch_opcode instr) = Some ge \<and>
         FlagsConditionToCondition (S390X t) kUnsignedGreaterThanOrEqual (arch_opcode instr) = Some ge \<and>
         FlagsConditionToCondition (S390X t) kSignedLessThanOrEqual (arch_opcode instr) = Some le \<and>
         FlagsConditionToCondition (S390X t) kUnsignedLessThanOrEqual (arch_opcode instr) = Some le \<and>
         FlagsConditionToCondition (S390X t) kSignedGreaterThan (arch_opcode instr) = Some gt \<and>
         FlagsConditionToCondition (S390X t) kUnsignedGreaterThan (arch_opcode instr) = Some gt \<and>
         CompareLogical instr = (flags_condition instr \<in> {kUnsignedLessThan,
              kUnsignedGreaterThanOrEqual, kUnsignedLessThanOrEqual, kUnsignedGreaterThan}) \<and>
         (\<exists>cmp cond.
            cmp = (if arch_opcode instr = kS390_Cmp32
                   then (if CompareLogical instr then CmpLogical32 else Cmp32)
                   else (if CompareLogical instr then CmpLogicalP else CmpP)) \<and>
            Assemble (S390X t) instr n = Some ([Cmp cmp a opnd], []) \<and>
            FlagsConditionToCondition (S390X t) (flags_condition instr) (arch_opcode instr) = Some cond \<and>
            run t ([Cmp cmp a opnd] @ [b_cond cond l]) None s =
              (if holds then Goto l (exec t (Cmp cmp a opnd) s)
               else Fallthrough (exec t (Cmp cmp a opnd) s)))"
proof -
  note asm = ASSEMBLE_COMPARE_two [OF ins snd]
  have logical: "CompareLogical instr = (flags_condition instr \<in> {kUnsignedLessThan,
              kUnsignedGreaterThanOrEqual, kUnsignedLessThanOrEqual, kUnsignedGreaterThan})"
    by (cases "flags_condition instr") (simp_all add: CompareLogical_def)
  have sem: "\<exists>cmp cond.
            cmp = (if arch_opcode instr = kS390_Cmp32
                   then (if CompareLogical instr then CmpLogical32 else Cmp32)
                   else (if CompareLogical instr then CmpLogicalP else CmpP)) \<and>
            Assemble (S390X t) instr n = Some ([Cmp cmp a opnd], []) \<and>
            FlagsConditionToCondition (S390X t) (flags_condition instr) (arch_opcode instr) = Some cond \<and>
            run t ([Cmp cmp a opnd] @ [b_cond cond l]) None s =
              (if holds then Goto l (exec t (Cmp cmp a opnd) s)
               else Fallthrough (exec t (Cmp cmp a opnd) s))"
    using opc
  proof
    assume o32: "arch_opcode instr = kS390_Cmp32"
    show ?thesis
      using rel
      by (cases "flags_condition instr")
         (simp_all add: o32 Assemble_def plain_def asm CompareLogical_def requested_relation_def
           branch_taken_def compare_signed_def compare_unsigned_def sint_eq_iff unat_eq_iff,
          auto simp: sint_eq_iff unat_eq_iff)
  next
    assume o64: "S390X t \<and> arch_opcode instr = kS390_Cmp64"
    show ?thesis
      using rel
      by (cases "flags_condition instr")
         (simp_all add: o64 Assemble_def plain_def only_S390X_def asm CompareLogical_def
           requested_relation_def branch_taken_def compare_signed_def compare_unsigned_def
           sint_eq_iff unat_eq_iff readP_def readPu_def,
          auto simp: sint_eq_iff unat_eq_iff)
  qed
  show ?thesis
    using logical sem by simp
qed

theorem compare_and_branch_implements_relation_witness:
  "\<exists>cmp cond.
     cmp = CmpLogical32 \<and>
     Assemble False \<lparr>arch_opcode = kS390_Cmp32, addressing_mode = kMode_None,
         flags_mode = kFlags_branch, flags_condition = kUnsignedLessThan,
         inputs = [RegisterOperand r2, RegisterOperand r3], outputs = []\<rparr> 0
       = Some ([Cmp cmp r2 (Reg r3)], []) \<and>
     FlagsConditionToCondition False kUnsignedLessThan kS390_Cmp32 = Some cond \<and>
     run (sample_target False) ([Cmp cmp r2 (Reg r3)] @ [b_cond cond (BlockLabel 7)]) None
         (zero_machine\<lparr>gpr := (\<lambda>r. 0)(r2 := 0xFFFFFFFF, r3 := 1)\<rparr>)
       = Fallthrough (exec (sample_target False) (Cmp cmp r2 (Reg r3))
           (zero_machine\<lparr>gpr := (\<lambda>r. 0)(r2 := 0xFFFFFFFF, r3 := 1)\<rparr>))"
  using compare_and_branch_implements_relation [of
      "\<lparr>arch_opcode = kS390_Cmp32, addressing_mode = kMode_None,
         flags_mode = kFlags_branch, flags_condition = kUnsignedLessThan,
         inputs = [RegisterOperand r2, RegisterOperand r3], outputs = []\<rparr>"
      "sample_target False" r2 "RegisterOperand r3" "Reg r3"
      "zero_machine\<lparr>gpr := (\<lambda>r. 0)(r2 := 0xFFFFFFFF, r3 := 1)\<rparr>" False 0 "BlockLabel 7"]
  by (simp add: sample_target_def requested_relation_def opnd_value_def reg_defs lo32_def
      CompareLogical_def)

subsection \<open>Addition with overflow\<close>

text \<open>
  C6. The code of \<^verbatim>\<open>kS390_AddWithOverflow32\<close> run on the inputs 0x7FFFFFFF and 1 (the
  second in a register or as an immediate) leaves 0x80000000 in the low 32 bits of the
  output register, and the condition that \<^verbatim>\<open>FlagsConditionToCondition\<close> selects for
  \<^verbatim>\<open>kOverflow\<close> and this opcode holds; the code of \<^verbatim>\<open>AssembleArchBoolean\<close> for
  \<^verbatim>\<open>kOverflow\<close>, run next, writes 1 to the last output register and leaves the sum.
  This holds in both build configurations.
\<close>

theorem AddWithOverflow32_scenario:
  assumes opc: "arch_opcode instr = kS390_AddWithOverflow32"
    and ins: "inputs instr = [RegisterOperand a, second]"
    and snd: "second_operand second = Some opnd"
    and outs: "outputs instr = [RegisterOperand out, RegisterOperand flag]"
    and va: "readP (S390X t) (gpr s a) = 0x7FFFFFFF"
    and vc: "readP (S390X t) (opnd_value s opnd) = 1"
    and d: "out \<noteq> r0" "out \<noteq> kScratchReg" "flag \<noteq> out"
  shows "\<exists>code cond mid k bcode fin.
      Assemble (S390X t) instr n = Some (code, []) \<and>
      run t code None s = Fallthrough mid \<and>
      lo32 (gpr mid out) = 0x80000000 \<and>
      FlagsConditionToCondition (S390X t) kOverflow kS390_AddWithOverflow32 = Some cond \<and>
      cc mid = Some k \<and> branch_taken cond k \<and>
      AssembleArchBoolean (S390X t) instr kOverflow = Some bcode \<and>
      run t bcode None mid = Fallthrough fin \<and>
      lo32 (gpr fin out) = 0x80000000 \<and>
      readP (S390X t) (gpr fin flag) = 1"
proof (cases "S390X t")
  case True
  have code: "Assemble True instr n = Some ([BinP AddP out a opnd, TestIfInt32 out r0], [])"
    using snd ins outs
    by (cases second rule: second_operand.cases)
       (auto simp: Assemble_def opc plain_def ASSEMBLE_ADD_WITH_OVERFLOW32_def ASSEMBLE_BINOP_def
         HasRegisterInput_def InputAt_def InputRegister_def InputImmediate_def OutputRegister_def
         OutputRegisterAt_def OutputAt_def)
  have bool: "AssembleArchBoolean True instr kOverflow =
      Some [LoadImmP flag 1, b_cond ne (LocalLabel ''cond_true''), LoadImmP flag 0,
            bind_label (LocalLabel ''cond_true''), bind_label (LocalLabel ''done'')]"
    using outs
    by (simp add: AssembleArchBoolean_def opc DCHECK_def OutputCount_def OutputRegisterAt_def
        OutputAt_def Let_def)
  show ?thesis
    using va vc d True
    by (simp add: code bool readP_def set_gprP_def set_gpr_def writeP_def lo32_simps
        compare_signed_def branch_taken_def sext32_def)
next
  case False
  have code: "Assemble False instr n = Some ([AddAndCheckForOverflow out a opnd kScratchReg r0], [])"
    using snd ins outs
    by (cases second rule: second_operand.cases)
       (auto simp: Assemble_def opc plain_def ASSEMBLE_ADD_WITH_OVERFLOW32_def
         ASSEMBLE_ADD_WITH_OVERFLOW_def HasRegisterInput_def InputAt_def InputRegister_def
         InputInt32_def OutputRegister_def OutputRegisterAt_def OutputAt_def)
  have bool: "AssembleArchBoolean False instr kOverflow =
      Some [LoadImmP flag 0, b_cond ge (LocalLabel ''cond_false''), LoadImmP flag 1,
            bind_label (LocalLabel ''cond_false''), bind_label (LocalLabel ''done'')]"
    using outs
    by (simp add: AssembleArchBoolean_def opc DCHECK_def OutputCount_def OutputRegisterAt_def
        OutputAt_def Let_def)
  have la: "lo32 (gpr s a) = 0x7FFFFFFF"
    using va False by (simp add: readP_def) (metis lo32_sext32 lo32_numeral)
  have lc: "lo32 (opnd_value s opnd) = 1"
    using vc False by (simp add: readP_def) (metis lo32_sext32 lo32_1)
  show ?thesis
    using d False
    by (simp add: code bool readP_def set_gprP_def set_gpr_def writeP_def lo32_simps la lc
        compare_signed_def branch_taken_def sext32_def test_sign_def Let_def)
qed


theorem AddWithOverflow32_scenario_witness:
  "\<exists>code cond mid k bcode fin.
      Assemble True \<lparr>arch_opcode = kS390_AddWithOverflow32, addressing_mode = kMode_None,
         flags_mode = kFlags_set, flags_condition = kOverflow,
         inputs = [RegisterOperand r2, RegisterOperand r3],
         outputs = [RegisterOperand r4, RegisterOperand r5]\<rparr> 0 = Some (code, []) \<and>
      run (sample_target True) code None
        (zero_machine\<lparr>gpr := (\<lambda>r. 0)(r2 := 0x7FFFFFFF, r3 := 1)\<rparr>) = Fallthrough mid \<and>
      lo32 (gpr mid r4) = 0x80000000 \<and>
      FlagsConditionToCondition True kOverflow kS390_AddWithOverflow32 = Some cond \<and>
      cc mid = Some k \<and> branch_taken cond k \<and>
      AssembleArchBoolean True \<lparr>arch_opcode = kS390_AddWithOverflow32, addressing_mode = kMode_None,
         flags_mode = kFlags_set, flags_condition = kOverflow,
         inputs = [RegisterOperand r2, RegisterOperand r3],
         outputs = [RegisterOperand r4, RegisterOperand r5]\<rparr> kOverflow = Some bcode \<and>
      run (sample_target True) bcode None mid = Fallthrough fin \<and>
      lo32 (gpr fin r4) = 0x80000000 \<and>
      readP True (gpr fin r5) = 1"
  using AddWithOverflow32_scenario [of
      "\<lparr>arch_opcode = kS390_AddWithOverflow32, addressing_mode = kMode_None,
         flags_mode = kFlags_set, flags_condition = kOverflow,
         inputs = [RegisterOperand r2, RegisterOperand r3],
         outputs = [RegisterOperand r4, RegisterOperand r5]\<rparr>"
      r2 "RegisterOperand r3" "Reg r3" r4 r5 "sample_target True"
      "zero_machine\<lparr>gpr := (\<lambda>r. 0)(r2 := 0x7FFFFFFF, r3 := 1)\<rparr>" 0]
  by (simp add: sample_target_def opnd_value_def reg_defs readP_def)


subsection \<open>Subtraction with overflow\<close>

lemma sint_sext32: "sint (sext32 v) = sint v"
  by (simp add: sext32_def sint_up_scast is_up)

lemma sext32_neg: "c \<noteq> 0x80000000 \<Longrightarrow> sext32 (- c) = - sext32 c"
proof -
  assume "c \<noteq> 0x80000000"
  then have "sint c \<noteq> - (2 ^ (LENGTH(32) - 1))" using sint_min32 [of c] by simp
  then have "sint (- c) = - sint c" by (rule sint_neg_eq)
  then have "sint (sext32 (- c)) = - sint (sext32 c)" by (simp add: sint_sext32)
  moreover have "sint (sext32 c) \<noteq> - (2 ^ (LENGTH(64) - 1))"
    using sint_range [of c] by (simp add: sint_sext32)
  ultimately have "sint (sext32 (- c)) = sint (- sext32 c)" by (simp add: sint_neg_eq)
  then show ?thesis by (simp add: sint_eq_iff)
qed

lemma branch_lt_iff: "branch_taken lt (compare_signed v 0) \<longleftrightarrow> v < 0"
  by (simp add: branch_taken_def compare_signed_def)

text \<open>
  C10, as amended. An instruction that \<^verbatim>\<open>ASSEMBLE_SUB_WITH_OVERFLOW()\<close> lowers
  (\<^verbatim>\<open>kS390_SubWithOverflow32\<close> without \<^verbatim>\<open>V8_TARGET_ARCH_S390X\<close>, \<^verbatim>\<open>kS390_Sub\<close> with a
  flags mode with it) and whose second operand is a 32-bit immediate is emitted as
  \<^verbatim>\<open>AddAndCheckForOverflow\<close> of the first input and the negated immediate. For every
  immediate but \<open>- 2^31\<close> the output is the difference and the overflow condition \<open>lt\<close>
  (the one \<^verbatim>\<open>FlagsConditionToCondition\<close> selects) holds exactly when the subtraction
  overflows at the width of the operation: 32 bits without \<^verbatim>\<open>V8_TARGET_ARCH_S390X\<close>,
  64 bits with it.
\<close>

theorem SUB_WITH_OVERFLOW_immediate:
  assumes opc: "(\<not> S390X t \<and> arch_opcode instr = kS390_SubWithOverflow32) \<or>
                (S390X t \<and> arch_opcode instr = kS390_Sub \<and> flags_mode instr \<noteq> kFlags_none)"
    and ins: "inputs instr = [RegisterOperand a, ImmediateOperand (kInt32 imm)]"
    and outs: "outputs instr = RegisterOperand out # others"
    and d: "out \<noteq> r0" "out \<noteq> kScratchReg"
    and imm: "imm \<noteq> 0x80000000"
  shows "\<exists>fin k.
      Assemble (S390X t) instr n =
        Some ([AddAndCheckForOverflow out a (Imm (sext32 (- imm))) kScratchReg r0], []) \<and>
      FlagsConditionToCondition (S390X t) kOverflow (arch_opcode instr) = Some lt \<and>
      run t [AddAndCheckForOverflow out a (Imm (sext32 (- imm))) kScratchReg r0] None s
        = Fallthrough fin \<and>
      cc fin = Some k \<and>
      (if S390X t
       then gpr fin out = gpr s a - sext32 imm \<and>
            branch_taken lt k = sub_overflows (gpr s a) (sext32 imm)
       else lo32 (gpr fin out) = lo32 (gpr s a) - imm \<and>
            branch_taken lt k = sub_overflows (lo32 (gpr s a)) imm)"
proof -
  have code: "Assemble (S390X t) instr n =
        Some ([AddAndCheckForOverflow out a (Imm (sext32 (- imm))) kScratchReg r0], [])"
    using opc ins outs
    by (auto simp: Assemble_def plain_def ASSEMBLE_SUB_WITH_OVERFLOW32_def
         ASSEMBLE_SUB_WITH_OVERFLOW_def HasRegisterInput_def InputAt_def InputRegister_def
         InputInt32_def OutputRegister_def OutputRegisterAt_def OutputAt_def)
  have cond: "FlagsConditionToCondition (S390X t) kOverflow (arch_opcode instr) = Some lt"
    using opc by auto
  have m32: "sint imm \<noteq> - (2 ^ (LENGTH(32) - 1))"
    using imm sint_min32 [of imm] by simp
  have m64: "sint (sext32 imm) \<noteq> - (2 ^ (LENGTH(64) - 1))"
    using sint_range [of imm] by (simp add: sint_sext32)
  have sem: "\<exists>fin k.
      run t [AddAndCheckForOverflow out a (Imm (sext32 (- imm))) kScratchReg r0] None s
        = Fallthrough fin \<and>
      cc fin = Some k \<and>
      (if S390X t
       then gpr fin out = gpr s a - sext32 imm \<and>
            branch_taken lt k = sub_overflows (gpr s a) (sext32 imm)
       else lo32 (gpr fin out) = lo32 (gpr s a) - imm \<and>
            branch_taken lt k = sub_overflows (lo32 (gpr s a)) imm)"
  proof (cases "S390X t")
    case True
    have ov: "sint ((gpr s a + - sext32 imm XOR gpr s a) AND (gpr s a + - sext32 imm XOR - sext32 imm)) < 0
        \<longleftrightarrow> sub_overflows (gpr s a) (sext32 imm)"
      using add_overflow_sign [of "gpr s a" "- sext32 imm"] add_neg_overflows [OF m64, of "gpr s a"]
      by simp
    show ?thesis
      using d True ov
      by (simp add: set_gprP_def set_gpr_def writeP_def readP_def opnd_value_def Let_def
          test_sign_def branch_lt_iff sext32_neg [OF imm])
  next
    case False
    have ov: "sint ((lo32 (gpr s a) + - imm XOR lo32 (gpr s a)) AND (lo32 (gpr s a) + - imm XOR - imm)) < 0
        \<longleftrightarrow> sub_overflows (lo32 (gpr s a)) imm"
      using add_overflow_sign [of "lo32 (gpr s a)" "- imm"] add_neg_overflows [OF m32, of "lo32 (gpr s a)"]
      by simp
    show ?thesis
      using d False ov
      by (simp add: set_gprP_def set_gpr_def writeP_def readP_def opnd_value_def Let_def
          test_sign_def branch_lt_iff lo32_simps sint_sext32)
  qed
  show ?thesis
    using code cond sem by blast
qed


theorem SUB_WITH_OVERFLOW_immediate_witness:
  "\<exists>fin k.
      Assemble False \<lparr>arch_opcode = kS390_SubWithOverflow32, addressing_mode = kMode_None,
         flags_mode = kFlags_set, flags_condition = kOverflow,
         inputs = [RegisterOperand r2, ImmediateOperand (kInt32 1)],
         outputs = [RegisterOperand r4, RegisterOperand r5]\<rparr> 0 =
        Some ([AddAndCheckForOverflow r4 r2 (Imm (sext32 (- 1))) kScratchReg r0], []) \<and>
      FlagsConditionToCondition False kOverflow kS390_SubWithOverflow32 = Some lt \<and>
      run (sample_target False) [AddAndCheckForOverflow r4 r2 (Imm (sext32 (- 1))) kScratchReg r0] None
          (zero_machine\<lparr>gpr := (\<lambda>r. 0)(r2 := 0x80000000)\<rparr>)
        = Fallthrough fin \<and>
      cc fin = Some k \<and>
      lo32 (gpr fin r4) = lo32 (0x80000000 :: 64 word) - 1 \<and>
      branch_taken lt k = sub_overflows (lo32 (0x80000000 :: 64 word)) 1"
  using SUB_WITH_OVERFLOW_immediate [of "sample_target False"
      "\<lparr>arch_opcode = kS390_SubWithOverflow32, addressing_mode = kMode_None,
         flags_mode = kFlags_set, flags_condition = kOverflow,
         inputs = [RegisterOperand r2, ImmediateOperand (kInt32 1)],
         outputs = [RegisterOperand r4, RegisterOperand r5]\<rparr>"
      r2 1 r4 "[RegisterOperand r5]" 0 "zero_machine\<lparr>gpr := (\<lambda>r. 0)(r2 := 0x80000000)\<rparr>"]
  by (simp add: sample_target_def reg_defs)

text \<open>With \<^verbatim>\<open>V8_TARGET_ARCH_S390X\<close> the rule of \<^verbatim>\<open>kS390_SubWithOverflow32\<close> does not go
  through that macro: it emits \<^verbatim>\<open>SubP\<close> and \<^verbatim>\<open>TestIfInt32\<close>, also for an immediate.\<close>

theorem SubWithOverflow32_S390X_emits_SubP:
  "Assemble True \<lparr>arch_opcode = kS390_SubWithOverflow32, addressing_mode = kMode_None,
         flags_mode = kFlags_set, flags_condition = kOverflow,
         inputs = [RegisterOperand r2, ImmediateOperand (kInt32 1)],
         outputs = [RegisterOperand r4, RegisterOperand r5]\<rparr> 0 =
     Some ([BinP SubP r4 r2 (Imm (sext32 1)), TestIfInt32 r4 r0], []) \<and>
   Assemble True \<lparr>arch_opcode = kS390_SubWithOverflow32, addressing_mode = kMode_None,
         flags_mode = kFlags_set, flags_condition = kOverflow,
         inputs = [RegisterOperand r2, ImmediateOperand (kInt32 1)],
         outputs = [RegisterOperand r4, RegisterOperand r5]\<rparr> 0 \<noteq>
     Some ([AddAndCheckForOverflow r4 r2 (Imm (sext32 (- 1))) kScratchReg r0], [])"
  by (simp add: Assemble_def plain_def ASSEMBLE_SUB_WITH_OVERFLOW32_def ASSEMBLE_BINOP_def
      HasRegisterInput_def InputAt_def InputRegister_def InputImmediate_def OutputRegister_def
      OutputRegisterAt_def OutputAt_def)

text \<open>At the immediate \<open>- 2^31\<close> the negation wraps to itself: subtracting it from 0
  overflows, and the emitted addition does not report it.\<close>

lemma SUB_WITH_OVERFLOW_immediate_min:
  "(case run (sample_target False)
      [AddAndCheckForOverflow r4 r2 (Imm (sext32 (- 0x80000000))) kScratchReg r0] None zero_machine
    of Fallthrough fin \<Rightarrow> cc fin = Some CC0 | _ \<Rightarrow> False) \<and>
   \<not> branch_taken lt CC0 \<and> sub_overflows (0 :: 32 word) 0x80000000"
  by (simp add: sample_target_def zero_machine_def set_gprP_def set_gpr_def writeP_def readP_def
      opnd_value_def Let_def test_sign_def compare_signed_def branch_taken_def lo32_simps
      sub_overflows_def in_signed_range_def sext32_def reg_defs set_lo32_def zext32_def)

subsection \<open>Shifts\<close>


lemma shift_count_take_bit: "shift_count v = unat (take_bit 6 v)"
  by (simp add: shift_count_def kRegisterWidth_def take_bit_eq_mod unat_mod)

lemma shift_count_low_bits: "take_bit 6 v = take_bit 6 w \<Longrightarrow> shift_count v = shift_count w"
  by (simp add: shift_count_take_bit)

lemma shift_count_writeP: "shift_count (writeP x old v) = shift_count v"
proof (rule shift_count_low_bits)
  show "take_bit 6 (writeP x old v) = take_bit 6 v"
    unfolding writeP_def set_lo32_def zext32_def lo32_def high_mask
    by (rule bit_word_eqI) (auto simp add: bit_simps)
qed

lemma AssembleShift32_registers:
  assumes ins: "inputs instr = [RegisterOperand a, RegisterOperand c]"
    and outs: "outputs instr = [RegisterOperand out]"
  shows "AssembleShift32 x instr opr =
     Some (if out = c then [LoadRR kScratchReg c, Shift32 opr out a (Reg kScratchReg)]
           else [Shift32 opr out a (Reg c)])"
  using ins outs
  by (simp add: AssembleShift32_def ASSEMBLE_BINOP_def HasRegisterInput_def InputAt_def
      InputRegister_def OutputRegister_def OutputRegisterAt_def OutputAt_def)

text \<open>
  C7. For \<^verbatim>\<open>kS390_ShiftLeft32\<close>, \<^verbatim>\<open>kS390_ShiftRight32\<close> and \<^verbatim>\<open>kS390_ShiftRightAlg32\<close>
  with the count in a register: when the output register is the register of the count,
  the emitted sequence is a copy of the count to \<^verbatim>\<open>kScratchReg\<close> followed by the shift
  by \<^verbatim>\<open>kScratchReg\<close>; and in every case the low 32 bits of the output are the first
  input shifted by the count the register held before, taken modulo the register width.
\<close>

theorem Shift32_count_in_register:
  assumes opc: "shift_of (arch_opcode instr) = Some opr"
    and ins: "inputs instr = [RegisterOperand a, RegisterOperand c]"
    and outs: "outputs instr = [RegisterOperand out]"
    and d: "a \<noteq> kScratchReg" "out \<noteq> kScratchReg"
  shows "\<exists>code fin.
      Assemble (S390X t) instr n = Some (code, []) \<and>
      code = (if out = c then [LoadRR kScratchReg c, Shift32 opr out a (Reg kScratchReg)]
              else [Shift32 opr out a (Reg c)]) \<and>
      run t code None s = Fallthrough fin \<and>
      lo32 (gpr fin out) = shift32 opr (lo32 (gpr s a)) (unat (gpr s c) mod kRegisterWidth)"
proof -
  have code: "Assemble (S390X t) instr n =
      Some (if out = c then [LoadRR kScratchReg c, Shift32 opr out a (Reg kScratchReg)]
            else [Shift32 opr out a (Reg c)], [])"
    using opc AssembleShift32_registers [OF ins outs]
    by (cases "arch_opcode instr") (simp_all add: Assemble_def plain_def)
  have sem: "\<exists>fin. run t (if out = c then [LoadRR kScratchReg c, Shift32 opr out a (Reg kScratchReg)]
              else [Shift32 opr out a (Reg c)]) None s = Fallthrough fin \<and>
      lo32 (gpr fin out) = shift32 opr (lo32 (gpr s a)) (shift_count (gpr s c))"
    using d
    by (auto simp: exec_shift32_def set_gprP_def set_gpr_def Let_def opnd_value_def lo32_simps
        shift_count_writeP)
  show ?thesis
    using code sem by (auto simp: shift_count_def)
qed


theorem Shift32_count_in_register_witness:
  "\<exists>code fin.
      Assemble False \<lparr>arch_opcode = kS390_ShiftLeft32, addressing_mode = kMode_None,
         flags_mode = kFlags_none, flags_condition = kEqual,
         inputs = [RegisterOperand r2, RegisterOperand r3],
         outputs = [RegisterOperand r3]\<rparr> 0 = Some (code, []) \<and>
      code = [LoadRR kScratchReg r3, Shift32 ShiftLeft r3 r2 (Reg kScratchReg)] \<and>
      run (sample_target False) code None (zero_machine\<lparr>gpr := (\<lambda>r. 0)(r2 := 1, r3 := 68)\<rparr>)
        = Fallthrough fin \<and>
      lo32 (gpr fin r3) = 16"
  using Shift32_count_in_register [of
      "\<lparr>arch_opcode = kS390_ShiftLeft32, addressing_mode = kMode_None,
         flags_mode = kFlags_none, flags_condition = kEqual,
         inputs = [RegisterOperand r2, RegisterOperand r3],
         outputs = [RegisterOperand r3]\<rparr>"
      ShiftLeft r2 r3 r3 "sample_target False" 0
      "zero_machine\<lparr>gpr := (\<lambda>r. 0)(r2 := 1, r3 := 68)\<rparr>"]
  by (simp add: sample_target_def reg_defs kRegisterWidth_def lo32_simps)

text \<open>Without the copy the macro would read the count after overwriting it: shifting
  1 left by the 4 held in the destination gives 2, not 16.\<close>

lemma Shift32_without_copy:
  "lo32 (gpr (exec (sample_target False) (Shift32 ShiftLeft r3 r2 (Reg r3))
       (zero_machine\<lparr>gpr := (\<lambda>r. 0)(r2 := 1, r3 := 4)\<rparr>)) r3) = 2"
  by (simp add: sample_target_def reg_defs exec_shift32_def set_gpr_def Let_def opnd_value_def
      lo32_simps shift_count_def kRegisterWidth_def zero_machine_def set_lo32_def zext32_def lo32_def)

subsection \<open>Binary operations and register aliasing\<close>

lemma ASSEMBLE_BINOP_two:
  assumes ins: "inputs instr = [RegisterOperand a, second]"
    and snd: "second_operand second = Some opnd"
    and outs: "outputs instr = RegisterOperand out # others"
  shows "ASSEMBLE_BINOP x instr asm_instr asm_instr = Some [asm_instr out a opnd]"
  using snd ins outs
  by (cases second rule: second_operand.cases)
     (auto simp: ASSEMBLE_BINOP_def HasRegisterInput_def InputAt_def InputRegister_def
         InputImmediate_def OutputRegister_def OutputRegisterAt_def OutputAt_def)

text \<open>The integer operations with a three-operand macro (\<^verbatim>\<open>AndP\<close>, \<^verbatim>\<open>OrP\<close>,
  \<^verbatim>\<open>XorP\<close>, \<^verbatim>\<open>AddP\<close>, \<^verbatim>\<open>SubP\<close>): the output is the operation on the values the
  inputs had, whichever registers coincide.\<close>

lemma integer_binop_any_aliasing:
  assumes opc: "binop_of (arch_opcode instr) = Some opr"
    and flags: "flags_mode instr = kFlags_none"
    and ins: "inputs instr = [RegisterOperand a, second]"
    and snd: "second_operand second = Some opnd"
    and outs: "outputs instr = [RegisterOperand out]"
  shows "\<exists>fin. Assemble (S390X t) instr n = Some ([BinP opr out a opnd], []) \<and>
      run t [BinP opr out a opnd] None s = Fallthrough fin \<and>
      gpr fin out = writeP (S390X t) (gpr s out) (binop opr (gpr s a) (opnd_value s opnd))"
  using opc flags ASSEMBLE_BINOP_two [OF ins snd outs]
  by (cases "arch_opcode instr")
     (simp_all add: Assemble_def plain_def set_gprP_def set_gpr_def)

text \<open>\<^verbatim>\<open>kS390_SubDouble\<close> and \<^verbatim>\<open>kS390_DivDouble\<close>: the output is the first input
  minus (divided by) the second, whichever of the three registers coincide.\<close>

lemma AssembleFloatOrdered_any_aliasing:
  assumes ins: "inputs instr = [DoubleRegisterOperand a, DoubleRegisterOperand c]"
    and outs: "outputs instr = [DoubleRegisterOperand out]"
    and d: "a \<noteq> kScratchDoubleReg" "out \<noteq> kScratchDoubleReg"
  shows "\<exists>code fin. AssembleFloatOrdered instr opr = Some code \<and>
      run t code None s = Fallthrough fin \<and>
      fpr fin out = float_binop t opr (fpr s a) (fpr s c)"
  using ins outs d
  by (auto simp: AssembleFloatOrdered_def InputAt_def InputDoubleRegister_def OutputDoubleRegister_def
      OutputAt_def set_fpr_def)

text \<open>\<^verbatim>\<open>kS390_AddDouble\<close> and \<^verbatim>\<open>kS390_MulDouble\<close>: when the output is the second
  input the operands are taken in the other order, which is the same value for a
  commutative operation.\<close>

lemma AssembleFloatCommutative_any_aliasing:
  assumes ins: "inputs instr = [DoubleRegisterOperand a, DoubleRegisterOperand c]"
    and outs: "outputs instr = [DoubleRegisterOperand out]"
    and comm: "float_binop t opr (fpr s c) (fpr s a) = float_binop t opr (fpr s a) (fpr s c)"
  shows "\<exists>code fin. AssembleFloatCommutative instr opr = Some code \<and>
      run t code None s = Fallthrough fin \<and>
      fpr fin out = float_binop t opr (fpr s a) (fpr s c)"
  using ins outs comm
  by (auto simp: AssembleFloatCommutative_def ASSEMBLE_FLOAT_UNOP_def InputAt_def
      InputDoubleRegister_def OutputDoubleRegister_def OutputAt_def set_fpr_def)

text \<open>\<^verbatim>\<open>kS390_AndComplement\<close> and \<^verbatim>\<open>kS390_OrComplement\<close> with two different input
  registers: the output is right, and the second input register is left complemented.\<close>

lemma Complement_distinct_inputs:
  assumes opc: "arch_opcode instr = kS390_AndComplement \<and> opr = AndP \<or>
                arch_opcode instr = kS390_OrComplement \<and> opr = OrP"
    and ins: "inputs instr = [RegisterOperand a, RegisterOperand c]"
    and outs: "outputs instr = [RegisterOperand out]"
    and d: "a \<noteq> c"
  shows "\<exists>fin. Assemble True instr n = Some ([NotP c, BinP opr out a (Reg c)], []) \<and>
      run (t\<lparr>S390X := True\<rparr>) [NotP c, BinP opr out a (Reg c)] None s = Fallthrough fin \<and>
      gpr fin out = binop opr (gpr s a) (NOT (gpr s c)) \<and>
      (out \<noteq> c \<longrightarrow> gpr fin c = NOT (gpr s c))"
  using opc ins outs d
  by (auto simp: Assemble_def plain_def InputAt_def InputRegister_def OutputRegister_def
      OutputRegisterAt_def OutputAt_def set_gprP_def set_gpr_def writeP_def opnd_value_def)

text \<open>
  C1, at the input where it fails. \<^verbatim>\<open>kS390_AndComplement\<close> with the same register as
  both inputs: \<^verbatim>\<open>NotP\<close> complements the register in place before \<^verbatim>\<open>AndP\<close> reads its
  first operand from it, so for the value 5 the output is \<open>NOT 5\<close>, and not
  \<open>5 AND NOT 5 = 0\<close>, the operation on the values the inputs had.
\<close>

theorem AndComplement_same_input_register:
  "Assemble True \<lparr>arch_opcode = kS390_AndComplement, addressing_mode = kMode_None,
       flags_mode = kFlags_none, flags_condition = kEqual,
       inputs = [RegisterOperand r2, RegisterOperand r2],
       outputs = [RegisterOperand r3]\<rparr> 0 = Some ([NotP r2, BinP AndP r3 r2 (Reg r2)], []) \<and>
   (case run (sample_target True) [NotP r2, BinP AndP r3 r2 (Reg r2)] None
           (zero_machine\<lparr>gpr := (\<lambda>r. 0)(r2 := 5)\<rparr>)
    of Fallthrough fin \<Rightarrow> gpr fin r3 = NOT 5 \<and> gpr fin r3 \<noteq> 5 AND NOT 5 | _ \<Rightarrow> False)"
  by (simp add: Assemble_def plain_def InputAt_def InputRegister_def OutputRegister_def
      OutputRegisterAt_def OutputAt_def set_gprP_def set_gpr_def writeP_def opnd_value_def
      sample_target_def zero_machine_def reg_defs)


declare emit_padding.simps [simp del]

lemma half_step: "0 < p \<Longrightarrow> nat ((p + 1) div 2) = Suc (nat ((p - 2 + 1) div 2))" for p :: int
proof -
  assume p: "0 < p"
  have "(p + 1) div 2 = (p - 2 + 1) div 2 + 1" by presburger
  moreover have "0 \<le> (p - 2 + 1) div 2" using p by presburger
  ultimately show ?thesis by (simp add: nat_add_distrib)
qed

lemma emit_padding_effect:
  "emitted_code (emit_padding g p) = emitted_code g @ replicate (nat ((p + 1) div 2)) nop \<and>
   pc_offset (emit_padding g p) = pc_offset g + 2 * int (nat ((p + 1) div 2)) \<and>
   last_lazy_deopt_pc (emit_padding g p) = last_lazy_deopt_pc g"
proof (induction g p rule: emit_padding.induct)
  case (1 g p)
  show ?case
  proof (cases "p > 0")
    case True
    have unfold: "emit_padding g p = emit_padding (emit_nop g) (p - 2)"
      using True by (subst emit_padding.simps) simp
    have nop: "emitted_code (emit_nop g) = emitted_code g @ [nop]"
      "pc_offset (emit_nop g) = pc_offset g + 2"
      "last_lazy_deopt_pc (emit_nop g) = last_lazy_deopt_pc g"
      by (simp_all add: emit_nop_def)
    show ?thesis
      unfolding unfold half_step [OF True]
      using 1 [OF True] by (simp only: nop replicate.simps append_assoc append.simps) simp
  next
    case False
    then show ?thesis by (simp add: emit_padding.simps)
  qed
qed

text \<open>
  C8, as amended. When space for lazy deoptimization is to be ensured, and the offsets
  differ by an even number of bytes (as the \<^verbatim>\<open>DCHECK\<close> asks), after
  \<^verbatim>\<open>EnsureSpaceForLazyDeopt\<close> the code offset is at least \<^verbatim>\<open>last_lazy_deopt_pc_\<close> plus
  the patch size. The function reaches this by emitting \<open>k\<close> two-byte nops, where
  \<open>2 * k\<close> is the number of bytes missing (none when the offset is far enough already);
  \<open>k\<close> itself may be odd. A call site assembled next therefore records an offset at least
  the patch size beyond the one recorded before.
\<close>

theorem EnsureSpaceForLazyDeopt_invariant:
  assumes even: "(last_lazy_deopt_pc g + patch_size - pc_offset g) mod 2 = 0"
  shows "\<exists>g' k. EnsureSpaceForLazyDeopt True patch_size g = Some g' \<and>
      pc_offset g' \<ge> last_lazy_deopt_pc g' + patch_size \<and>
      last_lazy_deopt_pc g' = last_lazy_deopt_pc g \<and>
      emitted_code g' = emitted_code g @ replicate k nop \<and>
      pc_offset g' = pc_offset g + 2 * int k \<and>
      2 * int k = max 0 (last_lazy_deopt_pc g + patch_size - pc_offset g) \<and>
      (\<forall>call call_size. 0 \<le> call_size \<longrightarrow>
         last_lazy_deopt_pc (MarkLazyDeoptSite (emit_call call call_size g'))
           \<ge> last_lazy_deopt_pc g + patch_size)"
proof (cases "pc_offset g < last_lazy_deopt_pc g + patch_size")
  case True
  define p where "p = last_lazy_deopt_pc g + patch_size - pc_offset g"
  have p: "p > 0" "p mod 2 = 0" using True even by (simp_all add: p_def)
  have "(p + 1) div 2 = p div 2" "2 * (p div 2) = p" "0 \<le> p div 2"
    using p by presburger+
  then have k: "2 * int (nat ((p + 1) div 2)) = p" by simp
  have res: "EnsureSpaceForLazyDeopt True patch_size g = Some (emit_padding g p)"
    using True even by (simp add: EnsureSpaceForLazyDeopt_def Let_def DCHECK_def p_def)
  show ?thesis
    using emit_padding_effect [of g p] k p
    by (intro exI [of _ "emit_padding g p"] exI [of _ "nat ((p + 1) div 2)"])
       (auto simp: res MarkLazyDeoptSite_def emit_call_def p_def)
next
  case False
  have res: "EnsureSpaceForLazyDeopt True patch_size g = Some g"
    using False by (simp add: EnsureSpaceForLazyDeopt_def Let_def)
  show ?thesis
    using False
    by (intro exI [of _ g] exI [of _ 0]) (auto simp: res MarkLazyDeoptSite_def emit_call_def)
qed

theorem EnsureSpaceForLazyDeopt_invariant_witness:
  "\<exists>g' k. EnsureSpaceForLazyDeopt True 6 \<lparr>emitted_code = [], pc_offset = 4, last_lazy_deopt_pc = 2\<rparr> = Some g' \<and>
      pc_offset g' \<ge> last_lazy_deopt_pc g' + 6 \<and>
      last_lazy_deopt_pc g' = 2 \<and>
      emitted_code g' = replicate k nop \<and>
      pc_offset g' = 4 + 2 * int k \<and>
      2 * int k = 4"
  using EnsureSpaceForLazyDeopt_invariant [of "\<lparr>emitted_code = [], pc_offset = 4, last_lazy_deopt_pc = 2\<rparr>" 6]
  by simp blast

text \<open>Two bytes missing are filled with one nop.\<close>

theorem EnsureSpaceForLazyDeopt_one_nop:
  "EnsureSpaceForLazyDeopt True 6 \<lparr>emitted_code = [], pc_offset = 4, last_lazy_deopt_pc = 0\<rparr>
     = Some \<lparr>emitted_code = [nop], pc_offset = 6, last_lazy_deopt_pc = 0\<rparr> \<and>
   \<not> even (length [nop])"
  by (simp add: EnsureSpaceForLazyDeopt_def Let_def DCHECK_def emit_nop_def
      emit_padding.simps [of _ 2] emit_padding.simps [of _ 0])


subsection \<open>Table switch dispatch\<close>

lemma InputRpos_indices:
  assumes ins: "inputs instr = RegisterOperand input # ImmediateOperand (kRpoNumber d)
                   # map (\<lambda>r. ImmediateOperand (kRpoNumber r)) rpos"
  shows "\<forall>i \<in> set idxs. i < length rpos \<Longrightarrow>
         InputRpos instr idxs = Some (map (\<lambda>i. GetLabel (rpos ! i)) idxs)"
  by (induction idxs) (simp_all add: InputRpo_def InputAt_def ins)

lemma InputRpos_all:
  assumes ins: "inputs instr = RegisterOperand input # ImmediateOperand (kRpoNumber d)
                   # map (\<lambda>r. ImmediateOperand (kRpoNumber r)) rpos"
  shows "InputRpos instr [0..<length rpos] = Some (map GetLabel rpos)"
proof -
  have "InputRpos instr [0..<length rpos] = Some (map (\<lambda>i. GetLabel (rpos ! i)) [0..<length rpos])"
    by (rule InputRpos_indices [OF ins]) simp
  also have "map (\<lambda>i. GetLabel (rpos ! i)) [0..<length rpos] = map GetLabel (map ((!) rpos) [0..<length rpos])"
    by simp
  also have "\<dots> = map GetLabel rpos" by (simp only: map_nth)
  finally show ?thesis .
qed

lemma sint_word_of_int_small:
  assumes "- (2 ^ (LENGTH('a) - 1)) \<le> k" "k < 2 ^ (LENGTH('a) - 1)"
  shows "sint (word_of_int k :: 'a :: len word) = k"
  using assms by (simp add: sint_sbintrunc' signed_take_bit_int_eq_self)

lemma case_count_value:
  assumes "n < 2 ^ 31"
  shows "sint (of_nat n :: 32 word) = int n"
    and "sext32 (of_nat n) = (of_nat n :: 64 word)"
    and "unat (of_nat n :: 64 word) = n"
proof -
  have s: "sint (word_of_int (int n) :: 32 word) = int n"
    using assms by (intro sint_word_of_int_small) simp_all
  then show "sint (of_nat n :: 32 word) = int n" by simp
  have s64: "sint (word_of_int (int n) :: 64 word) = int n"
    using assms by (intro sint_word_of_int_small) simp_all
  have "sint (sext32 (word_of_int (int n))) = sint (word_of_int (int n) :: 64 word)"
    using s s64 by (simp add: sext32_def sint_up_scast is_up)
  then show "sext32 (of_nat n) = (of_nat n :: 64 word)"
    by (simp add: sint_eq_iff)
  show "unat (of_nat n :: 64 word) = n"
    using assms by (simp add: unsigned_of_nat take_bit_nat_eq_self)
qed

lemma and_low31: "(v :: 64 word) AND 0x7FFFFFFF = take_bit 31 v"
proof -
  have "(0x7FFFFFFF :: 64 word) = mask 31" by (simp add: mask_eq_exp_minus_1)
  then show ?thesis by (simp add: take_bit_eq_mask)
qed

lemma take_bit_31_add: "take_bit 31 (a + c :: 64 word) = take_bit 31 (take_bit 31 a + take_bit 31 c)"
proof -
  have "take_bit 31 (take_bit 64 (take_bit 31 (take_bit 64 a) + take_bit 31 (take_bit 64 c)))
        = take_bit 31 (take_bit 64 (a + c))" for a c :: int
  proof -
    have "take_bit 31 (take_bit 64 (take_bit 31 (take_bit 64 a) + take_bit 31 (take_bit 64 c)))
          = take_bit 31 (take_bit 31 a + take_bit 31 c)"
      by (simp add: take_bit_take_bit)
    also have "\<dots> = take_bit 31 (a + c)" by (simp only: take_bit_add)
    also have "\<dots> = take_bit 31 (take_bit 64 (a + c))" by (simp add: take_bit_take_bit)
    finally show ?thesis .
  qed
  then show ?thesis by transfer simp
qed

lemma take_bit_31_set_lo32: "take_bit 31 (set_lo32 old (lo32 a)) = take_bit 31 a"
  unfolding set_lo32_def lo32_def zext32_def high_mask
  by (rule bit_word_eqI) (auto simp add: bit_simps)

lemma pointer_index_address:
  "effective_address t (writeP (S390X t) o1 a + writeP (S390X t) o2 c + sext32 0)
     = effective_address t (c + a)"
proof (cases "S390X t")
  case True
  then show ?thesis by (simp add: effective_address_def writeP_def sext32_def add.commute)
next
  case False
  have "take_bit 31 (set_lo32 o1 (lo32 a) + set_lo32 o2 (lo32 c)) = take_bit 31 (c + a)"
    by (subst take_bit_31_add, simp only: take_bit_31_set_lo32, subst take_bit_31_add [symmetric])
       (simp add: add.commute)
  with False show ?thesis
    by (simp add: effective_address_def writeP_def sext32_def and_low31)
qed

lemma scaled_index:
  "push_bit (shift_count (of_nat (kPointerSizeLog2 t))) (w :: 64 word) = of_nat (unat w * kPointerSize t)"
  by (simp add: kPointerSizeLog2_def kPointerSize_def shift_count_def kRegisterWidth_def push_bit_eq_mult)

lemma readPu_idem: "readPu x (readPu x v) = readPu x v"
  by (simp add: readPu_def lo32_simps)

lemma reg_distinct: "r1 \<noteq> r0" "ip \<noteq> r0" "r1 \<noteq> ip" "ip \<noteq> r1" "kScratchReg = ip"
  by (simp_all add: reg_defs)

lemma negative_unat:
  assumes "sint (w :: 'a :: len word) < 0"
  shows "2 ^ (LENGTH('a) - 1) \<le> unat w"
proof (rule ccontr)
  assume "\<not> 2 ^ (LENGTH('a) - 1) \<le> unat w"
  then have "int (unat w) < 2 ^ (LENGTH('a) - 1)"
    by (metis not_le of_nat_less_iff of_nat_numeral of_nat_power)
  moreover have "- (2 ^ (LENGTH('a) - 1)) \<le> int (unat w)"
    by (rule order_trans [of _ 0]) simp_all
  ultimately have "sint (word_of_int (int (unat w)) :: 'a word) = int (unat w)"
    by (intro sint_word_of_int_small)
  then show False using assms by simp
qed

lemma negative_index:
  assumes "sint (readP x v) < 0"
  shows "2 ^ 31 \<le> unat (readPu x v)"
proof (cases x)
  case True
  then have "2 ^ 63 \<le> unat v" using negative_unat [of v] assms by (simp add: readP_def)
  then show ?thesis using True by (simp add: readPu_def)
next
  case False
  then have "sint (lo32 v) < 0" using assms by (simp add: readP_def sint_sext32)
  then have "2 ^ 31 \<le> unat (lo32 v)" using negative_unat [of "lo32 v"] by simp
  moreover have "unat (lo32 v) < 2 ^ 64"
    using unsigned_less [of "lo32 v", where 'a = nat] by simp
  ultimately show ?thesis using False
    by (simp add: readPu_def zext32_def unsigned_ucast_eq take_bit_nat_eq_self)
qed

text \<open>
  C3. A table switch whose inputs are the index register, the default block and \<open>N\<close> case
  blocks (\<open>N\<close> fits \<^verbatim>\<open>int32_t\<close>; the index register is not \<^verbatim>\<open>kScratchReg\<close>) is assembled
  into code and a jump table of the \<open>N\<close> case labels. With the words emitted by
  \<^verbatim>\<open>AssembleJumpTable\<close> in memory at the table's label: when the index, read as an unsigned
  pointer-wide number, is below \<open>N\<close>, the code jumps to the address of the label at that
  index of the table; otherwise it branches to the default label and does not load from the
  table. An index that is negative as a signed number is not below \<open>N\<close>. Memory is left as
  it was.
\<close>

theorem TableSwitch_dispatch:
  assumes ins: "inputs instr = RegisterOperand input # ImmediateOperand (kRpoNumber d)
                   # map (\<lambda>r. ImmediateOperand (kRpoNumber r)) rpos"
    and n: "length rpos < 2 ^ 31"
    and scratch: "input \<noteq> kScratchReg"
    and tbl: "jump_table_in_memory t s (JumpTableLabel table) (AssembleJumpTable (map GetLabel rpos))"
  shows "\<exists>code. AssembleArchTableSwitch t instr table = Some (code, map GetLabel rpos)
           \<and> (let index = unat (readPu (S390X t) (gpr s input)) in
              if index < length rpos
              then \<exists>fin. run t code None s
                          = JumpTo (readPu (S390X t) (label_address t (GetLabel (rpos ! index)))) fin
                        \<and> mem fin = mem s
              else \<exists>fin. run t code None s = Goto (GetLabel d) fin \<and> mem fin = mem s)
           \<and> (sint (readP (S390X t) (gpr s input)) < 0
                \<longrightarrow> \<not> unat (readPu (S390X t) (gpr s input)) < length rpos)"
proof -
  have neg: "sint (readP (S390X t) (gpr s input)) < 0
                \<longrightarrow> \<not> unat (readPu (S390X t) (gpr s input)) < length rpos"
    using negative_index [of "S390X t" "gpr s input"] n by auto
  let ?x = "S390X t"
  let ?w = "readPu ?x (gpr s input)"
  let ?code = "[Cmp CmpLogicalP input (Imm (of_nat (length rpos))),
              bge (GetLabel d),
              larl kScratchReg (JumpTableLabel table),
              ShiftLeftP r1 input (Imm (of_nat (kPointerSizeLog2 t))),
              Load LoadP kScratchReg (MemOperand_RR kScratchReg r1),
              Jump kScratchReg]"
  have cnt: "InputCount instr = length rpos + 2" by (simp add: InputCount_def ins)
  have code: "AssembleArchTableSwitch t instr table = Some (?code, map GetLabel rpos)"
    unfolding AssembleArchTableSwitch_def cnt
    by (simp add: case_count_value [OF n] InputRpos_all [OF ins] InputRegister_def InputAt_def
        InputRpo_def ins Let_def)
  have lim: "unat (readPu ?x (of_nat (length rpos))) = length rpos"
    using n by (simp add: readPu_def lo32_def zext32_def unsigned_of_nat take_bit_nat_eq_self unsigned_ucast_eq)
  show ?thesis
  proof (cases "unat ?w < length rpos")
    case True
    have ent: "load_value t LoadP (mem s) (table_entry_address t (JumpTableLabel table) (unat ?w))
               = readPu ?x (label_address t (GetLabel (rpos ! unat ?w)))"
      using tbl True by (simp add: jump_table_in_memory_def AssembleJumpTable_def list_all_iff)
    define s1 where "s1 = exec t (Cmp CmpLogicalP input (Imm (of_nat (length rpos)))) s"
    define s2 where "s2 = exec t (larl kScratchReg (JumpTableLabel table)) s1"
    define s3 where "s3 = exec t (ShiftLeftP r1 input (Imm (of_nat (kPointerSizeLog2 t)))) s2"
    define s4 where "s4 = exec t (Load LoadP kScratchReg (MemOperand_RR kScratchReg r1)) s3"
    have cc1: "cc s1 = Some CC1"
      using True lim by (simp add: s1_def opnd_value_def compare_unsigned_def)
    have g1: "gpr s1 = gpr s" and m1: "mem s1 = mem s" by (simp_all add: s1_def)
    have g2: "gpr s2 input = gpr s input"
      "gpr s2 ip = writeP ?x (gpr s ip) (label_address t (JumpTableLabel table))"
      and m2: "mem s2 = mem s"
      using scratch by (simp_all add: s2_def set_gprP_def set_gpr_def g1 m1 reg_distinct)
    have g3: "gpr s3 r1 = writeP ?x (gpr s2 r1) (of_nat (unat ?w * kPointerSize t))"
      "gpr s3 ip = writeP ?x (gpr s ip) (label_address t (JumpTableLabel table))"
      and m3: "mem s3 = mem s"
      unfolding s3_def exec.simps set_gprP_def set_gpr_def opnd_value_def
      by (simp_all only: Opnd.case scaled_index g2) (simp_all add: g2 m2 reg_distinct)
    have addr: "mem_address t s3 (MemOperand_RR kScratchReg r1)
                = effective_address t (label_address t (JumpTableLabel table) + of_nat (unat ?w * kPointerSize t))"
      unfolding mem_address_def MemOperand_RR_def
      by (simp only: MemOperand.simps reg_distinct if_False g3 pointer_index_address)
    have g4: "gpr s4 kScratchReg = writeP ?x (gpr s3 ip) (readPu ?x (label_address t (GetLabel (rpos ! unat ?w))))"
      and m4: "mem s4 = mem s"
      unfolding s4_def exec.simps set_gpr_def addr m3 ent [unfolded table_entry_address_def]
      by (simp_all add: reg_distinct m3)
    have "run t ?code None s
            = JumpTo (readPu ?x (label_address t (GetLabel (rpos ! unat ?w)))) s4"
      using cc1
      by (simp add: branch_taken_def s1_def [symmetric] s2_def [symmetric] s3_def [symmetric]
          s4_def [symmetric] g4 readPu_writeP readPu_idem del: exec.simps)
    moreover note m4
    ultimately show ?thesis using True code neg by (simp add: Let_def)
  next
    case False
    have "run t ?code None s = Goto (GetLabel d) (exec t (Cmp CmpLogicalP input (Imm (of_nat (length rpos)))) s)"
      using False lim
      by (auto simp add: opnd_value_def compare_unsigned_def branch_taken_def)
    then show ?thesis using False code neg by (simp add: Let_def)
  qed
qed


theorem TableSwitch_dispatch_witness:
  "\<exists>code fin.
      AssembleArchTableSwitch
        ((sample_target True)\<lparr>label_address :=
            (\<lambda>l. if l = JumpTableLabel 0 then 0x1000 else if l = BlockLabel 5 then 0x2000 else 0x3000)\<rparr>)
        \<lparr>arch_opcode = kArchTableSwitch, addressing_mode = kMode_None,
         flags_mode = kFlags_none, flags_condition = kEqual,
         inputs = [RegisterOperand r2, ImmediateOperand (kRpoNumber 9),
                   ImmediateOperand (kRpoNumber 5), ImmediateOperand (kRpoNumber 6)],
         outputs = []\<rparr> 0 = Some (code, [BlockLabel 5, BlockLabel 6]) \<and>
      run ((sample_target True)\<lparr>label_address :=
            (\<lambda>l. if l = JumpTableLabel 0 then 0x1000 else if l = BlockLabel 5 then 0x2000 else 0x3000)\<rparr>)
        code None
        (zero_machine\<lparr>gpr := (\<lambda>r. 0)(r2 := 1),
                      mem := (\<lambda>a. if a = 0x1006 then 0x20 else if a = 0x100E then 0x30 else 0)\<rparr>)
        = JumpTo 0x3000 fin"
proof -
  let ?t = "(sample_target True)\<lparr>label_address :=
            (\<lambda>l. if l = JumpTableLabel 0 then 0x1000 else if l = BlockLabel 5 then 0x2000 else 0x3000)\<rparr>"
  let ?s = "zero_machine\<lparr>gpr := (\<lambda>r. 0)(r2 := 1),
                      mem := (\<lambda>a. if a = 0x1006 then 0x20 else if a = 0x100E then 0x30 else 0)\<rparr>"
  have tbl: "jump_table_in_memory ?t ?s (JumpTableLabel 0) (AssembleJumpTable (map GetLabel [5, 6]))"
    by code_simp
  show ?thesis
    using TableSwitch_dispatch [of
        "\<lparr>arch_opcode = kArchTableSwitch, addressing_mode = kMode_None,
         flags_mode = kFlags_none, flags_condition = kEqual,
         inputs = [RegisterOperand r2, ImmediateOperand (kRpoNumber 9),
                   ImmediateOperand (kRpoNumber 5), ImmediateOperand (kRpoNumber 6)],
         outputs = []\<rparr>" r2 9 "[5, 6]" ?t ?s 0, OF _ _ _ tbl]
    by (simp add: sample_target_def zero_machine_def reg_defs readPu_def GetLabel_def) blast
qed


subsection \<open>Bounds-checked loads and stores\<close>










lemma lgfr_idle:
  "gpr s off = sext32 (lo32 (gpr s off)) \<Longrightarrow> exec t (lgfr off off) s = s"
  by (simp add: set_gpr_def)



































subsection \<open>Prologue and return\<close>














lemma rel_add_nat: "(B + word_of_int z) + of_nat i = (B + word_of_int (z + int i) :: 64 word)"
  by simp


























lemma Register_eq: "Register i = r \<longleftrightarrow> reg_code r = i"
  by (cases r) auto

lemma DoubleRegister_eq: "DoubleRegister i = r \<longleftrightarrow> dreg_code r = i"
  by (cases r) auto





















































end
